theory Spec2Isabelle
  imports Complex_Main "HOL-Library.AList"
begin

section \<open>Arrays and Python built-ins\<close>

text \<open>
  A two-dimensional NumPy array is a list of rows. Grayscale frames hold real numbers
  (floating point is idealised as exact arithmetic), \<open>uint8\<close> arrays hold naturals and
  boolean masks hold booleans.
\<close>

type_synonym 'a image = "'a list list"

type_synonym contour = "(int \<times> int) list"

definition np_shape :: "'a image \<Rightarrow> nat \<times> nat" where
  "np_shape im = (length im, case im of [] \<Rightarrow> 0 | r # _ \<Rightarrow> length r)"

definition np_full :: "nat \<times> nat \<Rightarrow> 'a \<Rightarrow> 'a image" where
  "np_full sh v = replicate (fst sh) (replicate (snd sh) v)"

definition zeros_like :: "'a image \<Rightarrow> 'b \<Rightarrow> 'b image" where
  "zeros_like im z = np_full (np_shape im) z"

definition np_size :: "'a image \<Rightarrow> nat" where
  "np_size im = length (concat im)"

definition count_nonzero :: "nat image \<Rightarrow> nat" where
  "count_nonzero im = length (filter (\<lambda>v. v \<noteq> 0) (concat im))"

definition count_nonzero_bool :: "bool image \<Rightarrow> nat" where
  "count_nonzero_bool im = length (filter (\<lambda>v. v) (concat im))"

definition np_any_bool :: "bool image \<Rightarrow> bool" where
  "np_any_bool im = list_ex (\<lambda>v. v) (concat im)"

definition np_any :: "real image \<Rightarrow> bool" where
  "np_any im = list_ex (\<lambda>v. v \<noteq> 0) (concat im)"

definition map_image :: "('a \<Rightarrow> 'b) \<Rightarrow> 'a image \<Rightarrow> 'b image" where
  "map_image f im = map (map f) im"

definition map2_image :: "('a \<Rightarrow> 'b \<Rightarrow> 'c) \<Rightarrow> 'a image \<Rightarrow> 'b image \<Rightarrow> 'c image" where
  "map2_image f a b = map2 (map2 f) a b"

definition astype_uint8 :: "bool image \<Rightarrow> nat image" where
  "astype_uint8 im = map_image (\<lambda>v. if v then 1 else 0) im"

definition astype_bool :: "nat image \<Rightarrow> bool image" where
  "astype_bool im = map_image (\<lambda>v. v \<noteq> 0) im"

text \<open>\<open>round(x)\<close> of Python rounds halves to the even neighbour; \<open>int(x)\<close> truncates.\<close>

definition py_round :: "real \<Rightarrow> int" where
  "py_round x =
     (let f = \<lfloor>x\<rfloor>; d = x - of_int f
      in if d < 1 / 2 then f else if 1 / 2 < d then f + 1 else if even f then f else f + 1)"

definition py_int :: "real \<Rightarrow> int" where
  "py_int x = (if 0 \<le> x then \<lfloor>x\<rfloor> else \<lceil>x\<rceil>)"

text \<open>\<open>np.median(frames, axis=0)\<close>: the frames are stacked pixel by pixel and every
  stack is replaced by its median. The caller never passes an empty list.\<close>

definition median :: "real list \<Rightarrow> real" where
  "median xs =
     (let s = sort xs; n = length s
      in if odd n then s ! (n div 2) else (s ! (n div 2 - 1) + s ! (n div 2)) / 2)"

fun stack_images :: "'a image list \<Rightarrow> 'a list image" where
  "stack_images [] = []"
| "stack_images [f] = map_image (\<lambda>v. [v]) f"
| "stack_images (f # fs) = map2_image (#) f (stack_images fs)"

definition np_median_axis0 :: "real image list \<Rightarrow> real image" where
  "np_median_axis0 frames = map_image median (stack_images frames)"

datatype error =
    ValueError_no_video
  | ValueError_no_frame int
  | ValueError_prev_blobs int
  | ValueError_max_empty
  | ValueError_remove
  | ValueError_int
  | IndexError
  | AttributeError
  | NotImplementedError

section \<open>Parameters and external libraries\<close>

text \<open>
  Modelled from the spec: \<open>SegmenterParameters\<close> and its two subclasses
  (\<open>tracker/parameters.py\<close>) are not part of the sources at hand. The specification
  describes a configuration object with these named numeric fields, which the segmenter
  reads as attributes.
\<close>

record params =
  movement_detection_threshold :: real
  discard_percentage :: real
  minimum_ant_radius :: real
  movement_detection_history :: int
  approx_tolerance :: real
  gaussian_sigma :: real
  doh_min_sigma :: real
  doh_max_sigma :: real
  doh_num_sigma :: int

datatype morph_op = MORPH_CLOSE | MORPH_OPEN

text \<open>
  The OpenCV calls the segmenter makes. Every theorem below holds for whatever these
  functions compute. The background subtractor is an object with hidden state
  (\<open>'st\<close>); \<open>subt_apply\<close> returns the state after the call together with the raw
  foreground mask.
\<close>

record 'st cv2 =
  cv_createBackgroundSubtractorMOG2 :: "int \<Rightarrow> 'st"
  subt_apply :: "'st \<Rightarrow> real image \<Rightarrow> 'st \<times> nat image"
  cv_morphologyEx :: "nat image \<Rightarrow> morph_op \<Rightarrow> nat image \<Rightarrow> nat image"
  cv_dilate :: "nat image \<Rightarrow> nat image \<Rightarrow> nat image"
  cv_getStructuringElement :: "int \<times> int \<Rightarrow> nat image"
  cv_threshold :: "real image \<Rightarrow> real \<Rightarrow> real \<Rightarrow> real image"
  cv_subtract :: "nat image \<Rightarrow> real image \<Rightarrow> nat image"
  cv_findContours :: "nat image \<Rightarrow> contour list"
  cv_contourArea :: "contour \<Rightarrow> real"
  cv_approxPolyDP :: "contour \<Rightarrow> real \<Rightarrow> bool \<Rightarrow> contour"
  cv_fillPoly :: "nat image \<Rightarrow> contour list \<Rightarrow> nat \<Rightarrow> nat image"
  cv_GaussianBlur :: "real image \<Rightarrow> int \<times> int \<Rightarrow> real \<Rightarrow> real image"
  cv_filter2D :: "real image \<Rightarrow> real list \<Rightarrow> real image"

section \<open>Movement masks\<close>

definition minimum_ant_area :: "real \<Rightarrow> real" where
  "minimum_ant_area min_radius = pi * min_radius ^ 2"

definition maximum_clear_radius :: "real \<Rightarrow> real" where
  "maximum_clear_radius radius = radius * 3"

definition create_subtractor :: "'st cv2 \<Rightarrow> int \<Rightarrow> 'st" where
  "create_subtractor cv history = cv_createBackgroundSubtractorMOG2 cv history"

text \<open>
  The scikit-image and SciPy calls. \<open>sk_threshold_isodata\<close> can raise (the source
  catches \<open>IndexError\<close> in one place); \<open>sk_regionprops\<close> returns, for every label of a
  label image, the label and the area of its region.
\<close>

record region =
  label :: nat
  area :: nat

record skimage =
  skmorph_disk :: "int \<Rightarrow> nat image"
  skdraw_disk :: "real \<times> real \<Rightarrow> int \<Rightarrow> nat \<times> nat \<Rightarrow> (int \<times> int) list"
  sk_img_as_uint :: "real image \<Rightarrow> real image"
  sk_threshold_isodata :: "real image \<Rightarrow> error + real"
  sk_watershed :: "real image \<Rightarrow> nat image \<Rightarrow> bool image \<Rightarrow> nat image"
  sk_regionprops :: "nat image \<Rightarrow> region list"
  sk_label :: "bool image \<Rightarrow> nat image"
  sk_blob_doh :: "real image \<Rightarrow> real \<Rightarrow> real \<Rightarrow> int \<Rightarrow> (real \<times> real \<times> real) list"
  sk_gaussian :: "real image \<Rightarrow> real \<Rightarrow> real image"
  sk_laplace :: "real image \<Rightarrow> bool image \<Rightarrow> real image"
  kdt_query_ball_point :: "(real \<times> real) list \<Rightarrow> real \<times> real \<Rightarrow> real \<Rightarrow> nat list"

text \<open>
  \<open>_get_mask\<close> returns a boolean array when it discards the mask and the \<open>uint8\<close>
  result of the dilation otherwise.
\<close>

datatype mask_array = BoolArray "bool image" | UInt8Array "nat image"

definition get_mask_background :: "real image \<Rightarrow> real image list \<Rightarrow> real image" where
  "get_mask_background frame last_frames =
     (if length last_frames = 0 then zeros_like frame 0 else np_median_axis0 last_frames)"

definition get_mask_candidate :: "real image \<Rightarrow> real image list \<Rightarrow> params \<Rightarrow> bool image" where
  "get_mask_candidate frame last_frames ps =
     (let background = get_mask_background frame last_frames;
          movement = map2_image (\<lambda>a b. \<bar>a - b\<bar>) frame background
      in map_image (\<lambda>m. movement_detection_threshold ps < m) movement)"

definition get_mask ::
  "'st cv2 \<Rightarrow> skimage \<Rightarrow> real image \<Rightarrow> real image list \<Rightarrow> params \<Rightarrow> mask_array" where
  "get_mask cv sk frame last_frames ps =
     (let mask = get_mask_candidate frame last_frames ps
      in if real (np_size mask) * discard_percentage ps < real (count_nonzero_bool mask)
         then BoolArray (np_full (np_shape mask) False)
         else
           let radius = minimum_ant_radius ps;
               mask = cv_morphologyEx cv (astype_uint8 mask) MORPH_CLOSE
                        (skmorph_disk sk (py_round radius));
               mask = cv_morphologyEx cv mask MORPH_OPEN
                        (skmorph_disk sk (py_round (radius * 0.8)));
               mask = cv_dilate cv mask (skmorph_disk sk (py_round radius))
           in UInt8Array mask)"

definition mask_array_any :: "mask_array \<Rightarrow> bool" where
  "mask_array_any m =
     (case m of BoolArray b \<Rightarrow> np_any_bool b | UInt8Array u \<Rightarrow> count_nonzero u \<noteq> 0)"

definition kernel :: "'st cv2 \<Rightarrow> real \<Rightarrow> nat image" where
  "kernel cv r = cv_getStructuringElement cv (py_int r, py_int r)"

text \<open>
  \<open>_get_mask_mog2\<close> up to its jolt test: the subtractor is applied (and changed),
  bright foreground is removed, the mask is closed and opened.
\<close>

definition get_mask_mog2_candidate ::
  "'st cv2 \<Rightarrow> 'st \<Rightarrow> real image \<Rightarrow> params \<Rightarrow> 'st \<times> nat image" where
  "get_mask_mog2_candidate cv subt frame ps =
     (let (subt, mask) = subt_apply cv subt frame;
          lamina = cv_threshold cv (map2_image (\<lambda>f m. if m \<noteq> 0 then f else 0) frame mask) 150 255;
          mask = cv_subtract cv mask lamina;
          r = minimum_ant_radius ps;
          mask = cv_morphologyEx cv mask MORPH_CLOSE (kernel cv r);
          mask = cv_morphologyEx cv mask MORPH_OPEN (kernel cv (r * 0.8))
      in (subt, mask))"

definition get_mask_mog2 ::
  "'st cv2 \<Rightarrow> 'st \<Rightarrow> real image \<Rightarrow> params \<Rightarrow> 'st \<times> bool image" where
  "get_mask_mog2 cv subt frame ps =
     (let (subt, mask) = get_mask_mog2_candidate cv subt frame ps
      in if real (np_size mask) * discard_percentage ps < real (count_nonzero mask)
         then (subt, np_full (np_shape mask) False)
         else
           let contours = cv_findContours cv mask;
               mask = zeros_like mask 0;
               min_area = minimum_ant_area (minimum_ant_radius ps);
               contours = map (\<lambda>cont. cv_approxPolyDP cv cont 0.01 True)
                            (filter (\<lambda>cont. min_area < cv_contourArea cv cont) contours);
               mask = cv_fillPoly cv mask contours 255
           in (subt, astype_bool mask))"

section \<open>Blob extraction\<close>

text \<open>
  Modelled from the spec: the \<open>Blob\<close> class (\<open>tracker/blob.py\<close>) is not part of the
  sources at hand. The specification treats it as an opaque value built from an image
  shape, a region mask and a polygon tolerance, which exposes a centre \<open>(x, y)\<close> and a
  radius. Blobs are values of an arbitrary type \<open>'b\<close>.
\<close>

record 'b blob_api =
  Blob_init :: "nat \<times> nat \<Rightarrow> bool image \<Rightarrow> real \<Rightarrow> 'b"
  center_xy :: "'b \<Rightarrow> real \<times> real"
  blob_radius :: "'b \<Rightarrow> real"

text \<open>NumPy indexing: a negative index counts from the end, anything else out of range
  raises \<open>IndexError\<close>.\<close>

definition np_index :: "int \<Rightarrow> nat \<Rightarrow> nat option" where
  "np_index i n =
     (if 0 \<le> i \<and> i < int n then Some (nat i)
      else if - int n \<le> i \<and> i < 0 then Some (nat (int n + i))
      else None)"

definition image_get :: "'a image \<Rightarrow> int \<times> int \<Rightarrow> error + 'a" where
  "image_get im rc =
     (case (np_index (fst rc) (fst (np_shape im)), np_index (snd rc) (snd (np_shape im))) of
        (Some r, Some c) \<Rightarrow> Inr (im ! r ! c)
      | _ \<Rightarrow> Inl IndexError)"

definition image_set1 :: "'a image \<Rightarrow> int \<times> int \<Rightarrow> 'a \<Rightarrow> error + 'a image" where
  "image_set1 im rc v =
     (case (np_index (fst rc) (fst (np_shape im)), np_index (snd rc) (snd (np_shape im))) of
        (Some r, Some c) \<Rightarrow> Inr (im[r := (im ! r)[c := v]])
      | _ \<Rightarrow> Inl IndexError)"

fun image_set :: "'a image \<Rightarrow> (int \<times> int) list \<Rightarrow> 'a \<Rightarrow> error + 'a image" where
  "image_set im [] v = Inr im"
| "image_set im (rc # rcs) v =
     (case image_set1 im rc v of Inl e \<Rightarrow> Inl e | Inr im' \<Rightarrow> image_set im' rcs v)"

text \<open>
  The loop that ends both extractors, written three times in the source:
  \<^verbatim>\<open>
  for p in props:
      if p.area < minimum_ant_area(params.minimum_ant_radius):
          continue
      blobs.append(Blob(imshape=frame.shape, mask=(labels == p.label), ...))
  \<close>
\<close>

definition region_blob :: "'b blob_api \<Rightarrow> real image \<Rightarrow> nat image \<Rightarrow> params \<Rightarrow> region \<Rightarrow> 'b" where
  "region_blob bl frame labels ps p =
     Blob_init bl (np_shape frame) (map_image (\<lambda>l. l = label p) labels) (approx_tolerance ps)"

fun region_blobs ::
  "'b blob_api \<Rightarrow> real image \<Rightarrow> nat image \<Rightarrow> params \<Rightarrow> region list \<Rightarrow> 'b list" where
  "region_blobs bl frame labels ps [] = []"
| "region_blobs bl frame labels ps (p # props) =
     (if real (area p) < minimum_ant_area (minimum_ant_radius ps)
      then region_blobs bl frame labels ps props
      else region_blob bl frame labels ps p # region_blobs bl frame labels ps props)"

text \<open>
  Variant A, the search for blobs of the previous frame that were close to each other:
  \<^verbatim>\<open>
  for i, blob in enumerate(prev_blobs[:-1]):
      new = list(kdt.query_ball_point(points[i], maximum_clear_radius(blob.radius)))
      if len(new) == 1:
          new.remove(i)
      idx.extend(new)
  \<close>
  \<open>list.remove\<close> raises \<open>ValueError\<close> when the element is missing.
\<close>

fun close_blobs ::
  "skimage \<Rightarrow> 'b blob_api \<Rightarrow> (real \<times> real) list \<Rightarrow> (nat \<times> 'b) list \<Rightarrow> nat list \<Rightarrow> error + nat list" where
  "close_blobs sk bl points [] idx = Inr idx"
| "close_blobs sk bl points ((i, blob) # rest) idx =
     (let new = kdt_query_ball_point sk points (points ! i)
                  (maximum_clear_radius (blob_radius bl blob))
      in if length new = 1
         then (if i \<in> set new then close_blobs sk bl points rest (idx @ remove1 i new)
               else Inl ValueError_remove)
         else close_blobs sk bl points rest (idx @ new))"

text \<open>
  The loop over the close blobs draws, for each, a clearance disk into the intersection
  zone and a smaller disk, labelled \<open>idx + 1\<close>, into the \<open>uint8\<close> marker mask.
\<close>

fun draw_close_blobs ::
  "skimage \<Rightarrow> 'b blob_api \<Rightarrow> params \<Rightarrow> 'b list \<Rightarrow> (real \<times> real) list \<Rightarrow> nat list \<Rightarrow>
     bool image \<times> nat image \<Rightarrow> error + bool image \<times> nat image" where
  "draw_close_blobs sk bl ps prev_blobs points [] zm = Inr zm"
| "draw_close_blobs sk bl ps prev_blobs points (idx # rest) zm =
     (if idx < length points
      then
        (case image_set (fst zm)
                (skdraw_disk sk (points ! idx)
                   (py_int (maximum_clear_radius (blob_radius bl (prev_blobs ! idx))))
                   (np_shape (fst zm))) True of
           Inl e \<Rightarrow> Inl e
         | Inr zone \<Rightarrow>
             (case image_set (snd zm)
                     (skdraw_disk sk (points ! idx) (py_int (minimum_ant_radius ps * 1.5))
                        (np_shape zone)) ((idx + 1) mod 256) of
                Inl e \<Rightarrow> Inl e
              | Inr markers \<Rightarrow> draw_close_blobs sk bl ps prev_blobs points rest (zone, markers)))
      else Inl IndexError)"

text \<open>
  The watershed stage of variant A (the region of the source between
  \<open>intersection_zone = ...\<close> and \<open>mask_not_intersecting = ...\<close>): its blobs and the
  intersection zone it leaves behind.
\<close>

definition logw_watershed ::
  "skimage \<Rightarrow> 'b blob_api \<Rightarrow> real image \<Rightarrow> bool image \<Rightarrow> params \<Rightarrow> 'b list \<Rightarrow>
     error + 'b list \<times> bool image" where
  "logw_watershed sk bl frame intensity_mask ps prev_blobs =
     (let intersection_zone = zeros_like frame False
      in if 1 < length prev_blobs
         then
           let points = map (\<lambda>blob. (snd (center_xy bl blob), fst (center_xy bl blob))) prev_blobs
           in case close_blobs sk bl points (enumerate 0 (butlast prev_blobs)) [] of
                Inl e \<Rightarrow> Inl e
              | Inr idx \<Rightarrow>
                  let close_idx = sort (remdups idx)
                  in if 0 < length close_idx
                     then
                       (case draw_close_blobs sk bl ps prev_blobs points close_idx
                               (intersection_zone, zeros_like frame 0) of
                          Inl e \<Rightarrow> Inl e
                        | Inr (intersection_zone, close_markers_mask) \<Rightarrow>
                            let close_markers_labels =
                                  sk_watershed sk (zeros_like frame 0) close_markers_mask
                                    (map2_image (\<and>) intensity_mask intersection_zone);
                                props = sk_regionprops sk close_markers_labels
                            in Inr (region_blobs bl frame close_markers_labels ps props,
                                    intersection_zone))
                     else Inr ([], intersection_zone)
         else Inr ([], intersection_zone))"

definition get_blobs_logw ::
  "'st cv2 \<Rightarrow> skimage \<Rightarrow> 'b blob_api \<Rightarrow> real image \<Rightarrow> bool image \<Rightarrow> params \<Rightarrow> 'b list \<Rightarrow>
     error + 'b list" where
  "get_blobs_logw cv sk bl frame movement_mask ps prev_blobs =
     (if \<not> np_any_bool movement_mask then Inr []
      else
        let ksize = py_int (4.0 * gaussian_sigma ps + 0.5) * 2 + 1;
            gauss = sk_img_as_uint sk (cv_GaussianBlur cv frame (ksize, ksize) (gaussian_sigma ps));
            log_img = map2_image (\<lambda>v m. if m then v else 0)
                    (cv_filter2D cv gauss [0.125, - 1, 0.125]) movement_mask
        in if \<not> np_any log_img then Inr []
           else
             (case sk_threshold_isodata sk log_img of
                Inl IndexError \<Rightarrow> Inr []
              | Inl e \<Rightarrow> Inl e
              | Inr t \<Rightarrow>
                  let intensity_mask = map_image (\<lambda>v. v \<le> t) log_img
                  in (case logw_watershed sk bl frame intensity_mask ps prev_blobs of
                        Inl e \<Rightarrow> Inl e
                      | Inr (blobs, intersection_zone) \<Rightarrow>
                          let mask_not_intersecting =
                                map2_image (\<lambda>a b. a \<and> \<not> b) intensity_mask intersection_zone;
                              labels = sk_label sk mask_not_intersecting;
                              props = sk_regionprops sk labels
                          in Inr (blobs @ region_blobs bl frame labels ps props))))"

text \<open>
  Variant B. The loop over the candidate centres:
  \<^verbatim>\<open>
  for _id, marker in enumerate(markers, 1):
      if not movement_mask[marker[0], marker[1]]:
          continue
      marker_mask[marker[0], marker[1]] = _id
  \<close>
\<close>

fun place_markers ::
  "bool image \<Rightarrow> nat image \<Rightarrow> (nat \<times> int \<times> int) list \<Rightarrow> error + nat image" where
  "place_markers movement_mask marker_mask [] = Inr marker_mask"
| "place_markers movement_mask marker_mask ((i, marker) # rest) =
     (case image_get movement_mask marker of
        Inl e \<Rightarrow> Inl e
      | Inr inside \<Rightarrow>
          if \<not> inside then place_markers movement_mask marker_mask rest
          else (case image_set1 marker_mask marker (i mod 256) of
                  Inl e \<Rightarrow> Inl e
                | Inr marker_mask' \<Rightarrow> place_markers movement_mask marker_mask' rest))"

definition get_blobs_in_frame_with_steps_doh ::
  "skimage \<Rightarrow> 'b blob_api \<Rightarrow> real image \<Rightarrow> bool image \<Rightarrow> params \<Rightarrow>
     error + 'b list \<times> real image \<times> real image \<times> nat image \<times> real image" where
  "get_blobs_in_frame_with_steps_doh sk bl frame movement_mask ps =
     (if \<not> np_any_bool movement_mask
      then Inr ([], zeros_like frame 0, zeros_like frame 0, zeros_like frame 0, zeros_like frame 0)
      else
        let masked_frame = map2_image (\<lambda>v m. if \<not> m then 255 else v) frame movement_mask;
            yxs = sk_blob_doh sk masked_frame (doh_min_sigma ps) (doh_max_sigma ps) (doh_num_sigma ps);
            markers = map (\<lambda>(y, x, sigma). (py_int y, py_int x)) yxs
        in case place_markers movement_mask (zeros_like frame 0) (enumerate 1 markers) of
             Inl e \<Rightarrow> Inl e
           | Inr marker_mask \<Rightarrow>
               let gauss = sk_gaussian sk frame (gaussian_sigma ps);
                   log_img = sk_laplace sk gauss movement_mask
               in (case sk_threshold_isodata sk log_img of
                     Inl e \<Rightarrow> Inl e
                   | Inr t \<Rightarrow>
                       let labels = sk_watershed sk log_img marker_mask
                                      (map_image (\<lambda>v. v < t) log_img);
                           props = sk_regionprops sk labels
                       in Inr (region_blobs bl frame labels ps props,
                               gauss, log_img, labels, masked_frame)))"

definition get_blobs_doh ::
  "skimage \<Rightarrow> 'b blob_api \<Rightarrow> real image \<Rightarrow> bool image \<Rightarrow> params \<Rightarrow> error + 'b list" where
  "get_blobs_doh sk bl frame movement_mask ps =
     (case get_blobs_in_frame_with_steps_doh sk bl frame movement_mask ps of
        Inl e \<Rightarrow> Inl e
      | Inr steps \<Rightarrow> Inr (fst steps))"

section \<open>The incremental segmenter\<close>

text \<open>
  Modelled from the spec: \<open>rgb2gray\<close>, \<open>Video\<close> and \<open>eq_gen_it\<close>
  (\<open>tracker/common.py\<close>) are not part of the sources at hand. A video is an indexable
  sequence of colour frames of an arbitrary type \<open>'f\<close>; \<open>rgb2gray\<close> and the shape of a
  frame are parameters, and so is \<open>eq_gen_it\<close> wherever it is called.
\<close>

record 'f common =
  rgb2gray :: "'f \<Rightarrow> real image"
  frame_shape :: "'f \<Rightarrow> nat \<times> nat"

record ('st, 'f, 'b) libs =
  lib_cv :: "'st cv2"
  lib_sk :: skimage
  lib_blob :: "'b blob_api"
  lib_common :: "'f common"

datatype seg_class = Segmenter | LogWSegmenter | DohSegmenter

text \<open>
  The attribute \<open>__video\<close> is missing on an instance made by \<open>decode\<close> until
  \<open>set_video\<close> is called, and can hold \<open>None\<close>. The table \<open>__frames_with_blobs\<close> is a
  dictionary: an association list in insertion order, written with \<open>AList.update\<close>.
\<close>

datatype 'f video_attr = Missing | PyNone | Video "'f list"

record ('f, 'b) segmenter =
  cls :: seg_class
  video :: "'f video_attr"
  frames_with_blobs :: "(int \<times> 'b list) list"
  params :: params
  video_length :: int
  video_shape :: "nat \<times> nat"

definition Segmenter_init ::
  "'f common \<Rightarrow> seg_class \<Rightarrow> 'f list \<Rightarrow> params \<Rightarrow> error + ('f, 'b) segmenter" where
  "Segmenter_init cm c v ps =
     (case v of
        [] \<Rightarrow> Inl IndexError
      | frame0 # _ \<Rightarrow>
          Inr \<lparr>cls = c, video = Video v, frames_with_blobs = [], params = ps,
               video_length = int (length v), video_shape = frame_shape cm frame0\<rparr>)"

definition py_range :: "int \<Rightarrow> int list" where
  "py_range n = [0..n - 1]"

definition is_finished :: "(int list \<Rightarrow> int list \<Rightarrow> bool) \<Rightarrow> ('f, 'b) segmenter \<Rightarrow> bool" where
  "is_finished eq_gen_it s =
     (if frames_with_blobs s = [] then False
      else eq_gen_it (map fst (frames_with_blobs s)) (py_range (video_length s)))"

fun py_max :: "int list \<Rightarrow> error + int" where
  "py_max [] = Inl ValueError_max_empty"
| "py_max (k # ks) = Inr (fold max ks k)"

definition reached_last_frame :: "('f, 'b) segmenter \<Rightarrow> bool" where
  "reached_last_frame s \<longleftrightarrow>
     frames_with_blobs s \<noteq> [] \<and> py_max (map fst (frames_with_blobs s)) = Inr (video_length s - 1)"

definition Segmenter_get_mask ::
  "('st, 'f, 'b) libs \<Rightarrow> ('f, 'b) segmenter \<Rightarrow> 'st \<Rightarrow> real image \<Rightarrow> 'st \<times> bool image" where
  "Segmenter_get_mask L s subtractor frame = get_mask_mog2 (lib_cv L) subtractor frame (params s)"

definition Segmenter_get_blobs ::
  "('st, 'f, 'b) libs \<Rightarrow> ('f, 'b) segmenter \<Rightarrow> real image \<Rightarrow> bool image \<Rightarrow> 'b list \<Rightarrow>
     error + 'b list" where
  "Segmenter_get_blobs L s gray_frame movement_mask prev_blobs =
     (case cls s of
        Segmenter \<Rightarrow> Inl NotImplementedError
      | LogWSegmenter \<Rightarrow>
          get_blobs_logw (lib_cv L) (lib_sk L) (lib_blob L) gray_frame movement_mask (params s)
            prev_blobs
      | DohSegmenter \<Rightarrow>
          get_blobs_doh (lib_sk L) (lib_blob L) gray_frame movement_mask (params s))"

definition set_video :: "('f, 'b) segmenter \<Rightarrow> 'f list \<Rightarrow> ('f, 'b) segmenter" where
  "set_video s v = s\<lparr>video := Video v\<rparr>"

definition blobs_at :: "('f, 'b) segmenter \<Rightarrow> int \<Rightarrow> 'b list option" where
  "blobs_at s frame_n = map_of (frames_with_blobs s) frame_n"

subsection \<open>The generator \<open>segment_rolling_from\<close>\<close>

text \<open>
  \<open>segment_rolling_from\<close> and \<open>segment_rolling_continue\<close> are generator functions:
  calling them runs nothing, the body starts at the first \<open>next\<close>. A generator is
  either not started (with the arguments of its call), suspended at the \<open>yield\<close> of the
  loop (with its local variables: the subtractor, \<open>prev_blobs\<close>, the number of the next
  frame and the frames still to come), or finished.
\<close>

datatype ('st, 'f, 'b) generator =
    Created int "'b list option"
  | Created_continue
  | Suspended 'st "'b list" int "'f list"
  | Finished

datatype 'b outcome = Yield int "'b list" | Raise error | StopIteration

definition video_get :: "'f list \<Rightarrow> int \<Rightarrow> error + 'f" where
  "video_get v frame_n =
     (if 0 \<le> frame_n \<and> frame_n < int (length v) then Inr (v ! nat frame_n) else Inl IndexError)"

text \<open>The choice of the blobs that precede the first frame.\<close>

definition resolve_prev_blobs ::
  "('f, 'b) segmenter \<Rightarrow> int \<Rightarrow> 'b list option \<Rightarrow> error + 'b list" where
  "resolve_prev_blobs s from_frame_n prev_blobs =
     (if from_frame_n = 0 then Inr []
      else
        (case (if frames_with_blobs s \<noteq> [] then map_of (frames_with_blobs s) (from_frame_n - 1)
               else None) of
           Some blobs \<Rightarrow> Inr blobs
         | None \<Rightarrow>
             (case prev_blobs of
                None \<Rightarrow> Inl (ValueError_prev_blobs (from_frame_n - 1))
              | Some blobs \<Rightarrow> Inr blobs)))"

text \<open>
  \<^verbatim>\<open>
  for frame_n in range(from_frame_n-n,from_frame_n):
      subtractor.apply(rgb2gray(self.__video[frame_n]))
  \<close>
\<close>

fun warm_up :: "'st cv2 \<Rightarrow> 'f common \<Rightarrow> 'f list \<Rightarrow> 'st \<Rightarrow> int list \<Rightarrow> error + 'st" where
  "warm_up cv cm v subtractor [] = Inr subtractor"
| "warm_up cv cm v subtractor (frame_n # rest) =
     (case video_get v frame_n of
        Inl e \<Rightarrow> Inl e
      | Inr frame \<Rightarrow> warm_up cv cm v (fst (subt_apply cv subtractor (rgb2gray cm frame))) rest)"

text \<open>The body of \<open>segment_rolling_from\<close> up to its main loop.\<close>

definition segment_rolling_from_start ::
  "('st, 'f, 'b) libs \<Rightarrow> ('f, 'b) segmenter \<Rightarrow> int \<Rightarrow> 'b list option \<Rightarrow>
     error + 'st \<times> 'b list \<times> 'f list" where
  "segment_rolling_from_start L s from_frame_n prev_blobs =
     (case video s of
        Missing \<Rightarrow> Inl AttributeError
      | PyNone \<Rightarrow> Inl ValueError_no_video
      | Video v \<Rightarrow>
          if from_frame_n < 0 \<or> video_length s \<le> from_frame_n
          then Inl (ValueError_no_frame from_frame_n)
          else
            (case resolve_prev_blobs s from_frame_n prev_blobs of
               Inl e \<Rightarrow> Inl e
             | Inr prev_blobs \<Rightarrow>
                 let n = min (movement_detection_history (params s)) from_frame_n;
                     subtractor = create_subtractor (lib_cv L) (movement_detection_history (params s))
                 in (case warm_up (lib_cv L) (lib_common L) v subtractor
                            [from_frame_n - n..from_frame_n - 1] of
                       Inl e \<Rightarrow> Inl e
                     | Inr subtractor \<Rightarrow> Inr (subtractor, prev_blobs, drop (nat from_frame_n) v))))"

text \<open>
  One turn of the main loop, up to the next \<open>yield\<close>:
  \<^verbatim>\<open>
  for frame_n, frame in enumerate(self.__video[from_frame_n:], from_frame_n):
      if frame_n in self.__frames_with_blobs:
          yield frame_n, self.__frames_with_blobs[frame_n]
      else:
          gray_frame = rgb2gray(frame)
          mask = self._get_mask(subtractor, gray_frame)
          blobs = self._get_blobs(gray_frame, mask, prev_blobs)
          self.__frames_with_blobs[frame_n] = blobs
          prev_blobs = blobs
          yield frame_n, blobs
  \<close>
\<close>

definition loop_step ::
  "('st, 'f, 'b) libs \<Rightarrow> ('f, 'b) segmenter \<Rightarrow> 'st \<Rightarrow> 'b list \<Rightarrow> int \<Rightarrow> 'f list \<Rightarrow>
     'b outcome \<times> ('f, 'b) segmenter \<times> ('st, 'f, 'b) generator" where
  "loop_step L s subtractor prev_blobs frame_n frames =
     (case frames of
        [] \<Rightarrow> (StopIteration, s, Finished)
      | frame # rest \<Rightarrow>
          (case map_of (frames_with_blobs s) frame_n of
             Some blobs \<Rightarrow> (Yield frame_n blobs, s, Suspended subtractor prev_blobs (frame_n + 1) rest)
           | None \<Rightarrow>
               let gray_frame = rgb2gray (lib_common L) frame;
                   (subtractor, mask) = Segmenter_get_mask L s subtractor gray_frame
               in (case Segmenter_get_blobs L s gray_frame mask prev_blobs of
                     Inl e \<Rightarrow> (Raise e, s, Finished)
                   | Inr blobs \<Rightarrow>
                       (Yield frame_n blobs,
                        s\<lparr>frames_with_blobs := AList.update frame_n blobs (frames_with_blobs s)\<rparr>,
                        Suspended subtractor blobs (frame_n + 1) rest))))"

definition segment_rolling_from ::
  "('st, 'f, 'b) libs \<Rightarrow> ('f, 'b) segmenter \<Rightarrow> int \<Rightarrow> 'b list option \<Rightarrow>
     'b outcome \<times> ('f, 'b) segmenter \<times> ('st, 'f, 'b) generator" where
  "segment_rolling_from L s from_frame_n prev_blobs =
     (case segment_rolling_from_start L s from_frame_n prev_blobs of
        Inl e \<Rightarrow> (Raise e, s, Finished)
      | Inr (subtractor, prev_blobs, frames) \<Rightarrow>
          loop_step L s subtractor prev_blobs from_frame_n frames)"

text \<open>
  \<open>segment_rolling_continue\<close> is
  \<open>yield from self.segment_rolling_from(max(self.__frames_with_blobs) + 1)\<close>.
\<close>

definition segment_rolling_continue ::
  "('st, 'f, 'b) libs \<Rightarrow> ('f, 'b) segmenter \<Rightarrow>
     'b outcome \<times> ('f, 'b) segmenter \<times> ('st, 'f, 'b) generator" where
  "segment_rolling_continue L s =
     (case py_max (map fst (frames_with_blobs s)) of
        Inl e \<Rightarrow> (Raise e, s, Finished)
      | Inr last_n \<Rightarrow> segment_rolling_from L s (last_n + 1) None)"

text \<open>\<open>next(g)\<close>: the outcome, the segmenter and the generator afterwards.\<close>

fun gen_next ::
  "('st, 'f, 'b) libs \<Rightarrow> ('f, 'b) segmenter \<Rightarrow> ('st, 'f, 'b) generator \<Rightarrow>
     'b outcome \<times> ('f, 'b) segmenter \<times> ('st, 'f, 'b) generator" where
  "gen_next L s (Created from_frame_n prev_blobs) = segment_rolling_from L s from_frame_n prev_blobs"
| "gen_next L s Created_continue = segment_rolling_continue L s"
| "gen_next L s (Suspended subtractor prev_blobs frame_n frames) =
     loop_step L s subtractor prev_blobs frame_n frames"
| "gen_next L s Finished = (StopIteration, s, Finished)"

subsection \<open>Callers\<close>

text \<open>
  What a caller can do with one segmenter: create generators, advance any of them by one
  \<open>next\<close>, attach a video. Generators are numbered in the order of their creation and
  share the segmenter's table. A run returns what every \<open>next\<close> produced.
\<close>

datatype ('f, 'b) event =
    Call_from int "'b list option"
  | Call_continue
  | Call_next nat
  | Call_set_video "'f list"

fun sys_step ::
  "('st, 'f, 'b) libs \<Rightarrow> ('f, 'b) segmenter \<times> ('st, 'f, 'b) generator list \<Rightarrow> ('f, 'b) event \<Rightarrow>
     (('f, 'b) segmenter \<times> ('st, 'f, 'b) generator list) \<times> 'b outcome list" where
  "sys_step L (s, gs) (Call_from from_frame_n prev_blobs) =
     ((s, gs @ [Created from_frame_n prev_blobs]), [])"
| "sys_step L (s, gs) Call_continue = ((s, gs @ [Created_continue]), [])"
| "sys_step L (s, gs) (Call_set_video v) = ((set_video s v, gs), [])"
| "sys_step L (s, gs) (Call_next i) =
     (if i < length gs
      then (case gen_next L s (gs ! i) of (out, s', g') \<Rightarrow> ((s', gs[i := g']), [out]))
      else ((s, gs), []))"

fun run ::
  "('st, 'f, 'b) libs \<Rightarrow> ('f, 'b) segmenter \<times> ('st, 'f, 'b) generator list \<Rightarrow> ('f, 'b) event list \<Rightarrow>
     (('f, 'b) segmenter \<times> ('st, 'f, 'b) generator list) \<times> 'b outcome list" where
  "run L st [] = (st, [])"
| "run L st (e # es) =
     (case sys_step L st e of
        (st', outs) \<Rightarrow> (case run L st' es of (st'', outs') \<Rightarrow> (st'', outs @ outs')))"

fun yielded_frames :: "'b outcome list \<Rightarrow> int list" where
  "yielded_frames [] = []"
| "yielded_frames (Yield frame_n blobs # outs) = frame_n # yielded_frames outs"
| "yielded_frames (out # outs) = yielded_frames outs"

subsection \<open>Serialisation\<close>

text \<open>\<open>str\<close> of an integer: a minus sign for a negative number, then the decimal digits.\<close>

definition digit_char :: "nat \<Rightarrow> char" where
  "digit_char d = char_of (48 + d)"

fun str_nat :: "nat \<Rightarrow> string" where
  "str_nat n = (if n < 10 then [digit_char n] else str_nat (n div 10) @ [digit_char (n mod 10)])"

declare str_nat.simps [simp del]

definition py_str :: "int \<Rightarrow> string" where
  "py_str i = (if i < 0 then CHR ''-'' # str_nat (nat (- i)) else str_nat (nat i))"

text \<open>
  Modelled from the spec: \<open>FrameNumber\<close> (\<open>tracker/common.py\<close>) is not part of the
  sources at hand; the specification says that frame keys are parsed as integers, so it is
  Python's \<open>int\<close> on a string, here for an optional sign followed by decimal digits
  (\<open>int\<close> also accepts blanks around the number and underscores between digits).
\<close>

definition is_digit :: "char \<Rightarrow> bool" where
  "is_digit c \<longleftrightarrow> (48::nat) \<le> of_char c \<and> (of_char c :: nat) \<le> 57"

definition digit_val :: "char \<Rightarrow> nat" where
  "digit_val c = of_char c - 48"

definition parse_nat :: "string \<Rightarrow> error + nat" where
  "parse_nat ds =
     (if ds \<noteq> [] \<and> list_all is_digit ds
      then Inr (foldl (\<lambda>acc c. 10 * acc + digit_val c) 0 ds)
      else Inl ValueError_int)"

definition FrameNumber :: "string \<Rightarrow> error + int" where
  "FrameNumber str =
     (if str \<noteq> [] \<and> hd str = CHR ''-''
      then (case parse_nat (tl str) of Inl e \<Rightarrow> Inl e | Inr n \<Rightarrow> Inr (- int n))
      else if str \<noteq> [] \<and> hd str = CHR ''+''
      then (case parse_nat (tl str) of Inl e \<Rightarrow> Inl e | Inr n \<Rightarrow> Inr (int n))
      else (case parse_nat str of Inl e \<Rightarrow> Inl e | Inr n \<Rightarrow> Inr (int n)))"

text \<open>
  Modelled from the spec: \<open>Blob.encode\<close>, \<open>Blob.decode\<close> (\<open>tracker/blob.py\<close>),
  \<open>SegmenterParameters\<close> and its \<open>items\<close> (\<open>tracker/parameters.py\<close>) are not part
  of the sources at hand. The specification names them as the serialisation interface of
  the two collaborators; they are parameters, \<open>'e\<close> being the type of an encoded blob
  and \<open>'pd\<close> the type of a dictionary of parameters.
\<close>

record ('b, 'e, 'pd) serial_api =
  blob_encode :: "'b \<Rightarrow> 'e"
  blob_decode :: "'e \<Rightarrow> nat \<times> nat \<Rightarrow> 'b"
  params_items :: "params \<Rightarrow> 'pd"
  SegmenterParameters :: "'pd \<Rightarrow> params"

record ('e, 'pd) serial =
  ser_frames_with_blobs :: "(string \<times> 'e list) list"
  ser_parameters :: 'pd
  ser_video_length :: int
  ser_video_shape :: "nat \<times> nat"

text \<open>A dictionary comprehension inserts its pairs one after the other.\<close>

definition py_dict :: "('k \<times> 'v) list \<Rightarrow> ('k \<times> 'v) list" where
  "py_dict pairs = foldl (\<lambda>d kv. AList.update (fst kv) (snd kv) d) [] pairs"

definition encode :: "('b, 'e, 'pd) serial_api \<Rightarrow> ('f, 'b) segmenter \<Rightarrow> ('e, 'pd) serial" where
  "encode api s =
     \<lparr>ser_frames_with_blobs =
        py_dict (map (\<lambda>(frame, blobs). (py_str frame, map (blob_encode api) blobs))
                   (frames_with_blobs s)),
      ser_parameters = params_items api (params s),
      ser_video_length = video_length s,
      ser_video_shape = video_shape s\<rparr>"

fun decode_items ::
  "('b, 'e, 'pd) serial_api \<Rightarrow> nat \<times> nat \<Rightarrow> (string \<times> 'e list) list \<Rightarrow>
     error + (int \<times> 'b list) list" where
  "decode_items api shape [] = Inr []"
| "decode_items api shape ((frame, blobs) # rest) =
     (case FrameNumber frame of
        Inl e \<Rightarrow> Inl e
      | Inr frame_n \<Rightarrow>
          (case decode_items api shape rest of
             Inl e \<Rightarrow> Inl e
           | Inr pairs \<Rightarrow> Inr ((frame_n, map (\<lambda>blob. blob_decode api blob shape) blobs) # pairs)))"

definition decode ::
  "('b, 'e, 'pd) serial_api \<Rightarrow> seg_class \<Rightarrow> ('e, 'pd) serial \<Rightarrow> error + ('f, 'b) segmenter" where
  "decode api c d =
     (let shape = ser_video_shape d
      in case decode_items api shape (ser_frames_with_blobs d) of
           Inl e \<Rightarrow> Inl e
         | Inr pairs \<Rightarrow>
             Inr \<lparr>cls = c, video = Missing, frames_with_blobs = py_dict pairs,
                  params = SegmenterParameters api (ser_parameters d),
                  video_length = ser_video_length d, video_shape = shape\<rparr>)"

text \<open>Two blobs agree within \<open>eps\<close> on both coordinates of the centre and on the radius.\<close>

definition blob_close :: "'b blob_api \<Rightarrow> real \<Rightarrow> 'b \<Rightarrow> 'b \<Rightarrow> bool" where
  "blob_close bl eps a b \<longleftrightarrow>
     \<bar>fst (center_xy bl a) - fst (center_xy bl b)\<bar> \<le> eps \<and>
     \<bar>snd (center_xy bl a) - snd (center_xy bl b)\<bar> \<le> eps \<and>
     \<bar>blob_radius bl a - blob_radius bl b\<bar> \<le> eps"

section \<open>A small instance of the libraries\<close>

text \<open>
  The theorems below hold for all library functions. To evaluate the model on concrete
  inputs, here is one simple choice: a colour frame is its own grayscale image, the
  subtractor remembers the frames it was fed and reports every non-zero pixel as
  foreground, morphology changes nothing, every foreground pixel gets label \<open>1\<close>, and a
  blob is the triple of the arguments it was built from.
\<close>

type_synonym demo_blob = "(nat \<times> nat) \<times> bool image \<times> real"

definition demo_cv :: "real image list cv2" where
  "demo_cv =
     \<lparr>cv_createBackgroundSubtractorMOG2 = (\<lambda>history. []),
      subt_apply = (\<lambda>st frame. (st @ [frame], map_image (\<lambda>v. if v = 0 then 0 else 255) frame)),
      cv_morphologyEx = (\<lambda>src op k. src),
      cv_dilate = (\<lambda>src k. src),
      cv_getStructuringElement = (\<lambda>ksize. [[1]]),
      cv_threshold = (\<lambda>src thresh maxval. map_image (\<lambda>v. if thresh < v then maxval else 0) src),
      cv_subtract = (\<lambda>a b. map2_image (\<lambda>x y. if y = 0 then x else 0) a b),
      cv_findContours = (\<lambda>m. if count_nonzero m = 0 then [] else [[(0, 0)]]),
      cv_contourArea = (\<lambda>c. 100),
      cv_approxPolyDP = (\<lambda>c eps closed. c),
      cv_fillPoly = (\<lambda>m cs v. if cs = [] then m else map_image (\<lambda>_. v) m),
      cv_GaussianBlur = (\<lambda>src ksize sigma. src),
      cv_filter2D = (\<lambda>src k. src)\<rparr>"

definition demo_sk :: skimage where
  "demo_sk =
     \<lparr>skmorph_disk = (\<lambda>r. [[1]]),
      skdraw_disk = (\<lambda>center r shape. []),
      sk_img_as_uint = (\<lambda>im. im),
      sk_threshold_isodata = (\<lambda>im. Inr 0),
      sk_watershed = (\<lambda>elevation markers m. map2_image (\<lambda>k inside. if inside then k else 0) markers m),
      sk_regionprops = (\<lambda>labels. if count_nonzero labels = 0 then []
                                  else [\<lparr>label = 1, area = count_nonzero labels\<rparr>]),
      sk_label = astype_uint8,
      sk_blob_doh = (\<lambda>im min_sigma max_sigma num_sigma. []),
      sk_gaussian = (\<lambda>im sigma. im),
      sk_laplace = (\<lambda>im m. map2_image (\<lambda>v inside. if inside then v else 0) im m),
      kdt_query_ball_point = (\<lambda>points x r. [0..<length points])\<rparr>"

definition demo_blob_api :: "demo_blob blob_api" where
  "demo_blob_api =
     \<lparr>Blob_init = (\<lambda>imshape m tolerance. (imshape, m, tolerance)),
      center_xy = (\<lambda>blob. (0, 0)),
      blob_radius = (\<lambda>blob. 1)\<rparr>"

definition demo_common :: "real image common" where
  "demo_common = \<lparr>rgb2gray = (\<lambda>frame. frame), frame_shape = np_shape\<rparr>"

definition demo_libs :: "(real image list, real image, demo_blob) libs" where
  "demo_libs =
     \<lparr>lib_cv = demo_cv, lib_sk = demo_sk, lib_blob = demo_blob_api, lib_common = demo_common\<rparr>"

definition demo_params :: params where
  "demo_params =
     \<lparr>movement_detection_threshold = 5, discard_percentage = 1 / 2, minimum_ant_radius = 1,
      movement_detection_history = 2, approx_tolerance = 1, gaussian_sigma = 1,
      doh_min_sigma = 1, doh_max_sigma = 2, doh_num_sigma = 2\<rparr>"

definition demo_api :: "(demo_blob, demo_blob, params) serial_api" where
  "demo_api =
     \<lparr>blob_encode = (\<lambda>blob. blob),
      blob_decode = (\<lambda>e shape. (shape, snd e)),
      params_items = (\<lambda>ps. ps),
      SegmenterParameters = (\<lambda>d. d)\<rparr>"

text \<open>
  A video of three frames of two rows and three columns: two blank frames, then one with
  a bright pixel; and a segmenter made for it by \<open>LogWSegmenter(video, params)\<close>.
\<close>

definition demo_blank :: "real image" where
  "demo_blank = [[0, 0, 0], [0, 0, 0]]"

definition demo_ant :: "real image" where
  "demo_ant = [[0, 7, 0], [0, 0, 0]]"

definition demo_jolt :: "real image" where
  "demo_jolt = [[7, 7, 7], [7, 7, 0]]"

definition demo_fresh :: "(real image, demo_blob) segmenter" where
  "demo_fresh =
     \<lparr>cls = LogWSegmenter, video = Video [demo_blank, demo_blank, demo_ant],
      frames_with_blobs = [], params = demo_params, video_length = 3, video_shape = (2, 3)\<rparr>"

text \<open>The blob the instance finds in \<open>demo_ant\<close>.\<close>

definition demo_ant_blob :: demo_blob where
  "demo_ant_blob = ((2, 3), [[True, False, True], [True, True, True]], 1)"

text \<open>
  A segmenter for a video of two blank frames; the same after frame 1 was segmented
  first and frame 0 second, and after both frames were segmented in order; and a
  segmenter decoded from a record with no frames at all.
\<close>

definition demo_two :: "(real image, demo_blob) segmenter" where
  "demo_two =
     \<lparr>cls = LogWSegmenter, video = Video [demo_blank, demo_blank],
      frames_with_blobs = [], params = demo_params, video_length = 2, video_shape = (2, 3)\<rparr>"

definition demo_out_of_order :: "(real image, demo_blob) segmenter" where
  "demo_out_of_order = demo_two\<lparr>frames_with_blobs := [(1, []), (0, [])]\<rparr>"

definition demo_in_order :: "(real image, demo_blob) segmenter" where
  "demo_in_order = demo_two\<lparr>frames_with_blobs := [(0, []), (1, [])]\<rparr>"

definition demo_decoded_empty :: "(real image, demo_blob) segmenter" where
  "demo_decoded_empty =
     \<lparr>cls = LogWSegmenter, video = Missing, frames_with_blobs = [], params = demo_params,
      video_length = 0, video_shape = (2, 3)\<rparr>"

text \<open>A segmenter for a video in which the bright pixel shows in frames 1 and 2.\<close>

definition demo_three :: "(real image, demo_blob) segmenter" where
  "demo_three =
     \<lparr>cls = LogWSegmenter, video = Video [demo_blank, demo_ant, demo_ant],
      frames_with_blobs = [], params = demo_params, video_length = 3, video_shape = (2, 3)\<rparr>"

text \<open>
  The same video for the other extractor, with a threshold function that always fails;
  a movement mask that is true everywhere; and a table with two frames of one blob each.
\<close>

definition demo_sk_failing :: skimage where
  "demo_sk_failing = demo_sk\<lparr>sk_threshold_isodata := (\<lambda>im. Inl IndexError)\<rparr>"

definition demo_libs_failing :: "(real image list, real image, demo_blob) libs" where
  "demo_libs_failing = demo_libs\<lparr>lib_sk := demo_sk_failing\<rparr>"

definition demo_doh :: "(real image, demo_blob) segmenter" where
  "demo_doh = demo_three\<lparr>cls := DohSegmenter\<rparr>"

definition demo_all_true :: "bool image" where
  "demo_all_true = [[True, True, True], [True, True, True]]"

definition demo_segmented :: "(real image, demo_blob) segmenter" where
  "demo_segmented =
     demo_three\<lparr>frames_with_blobs := [(1, [demo_ant_blob]), (2, [demo_ant_blob])]\<rparr>"

section \<open>Properties of the movement masks\<close>

lemma np_full_False_none: "\<not> np_any_bool (np_full sh False)"
  by (simp add: np_any_bool_def np_full_def list_ex_iff)

lemma median_single: "median [v] = v"
  by (simp add: median_def)

lemma np_median_single: "np_median_axis0 [prev] = prev"
  by (simp add: np_median_axis0_def map_image_def median_single comp_def)

lemma map_image_map2_image:
  "map_image f (map2_image g a b) = map2_image (\<lambda>x y. f (g x y)) a b"
  by (simp add: map_image_def map2_image_def zip_map_fst_snd split_def comp_def)

text \<open>With one frame of history the background is that frame, so the candidate mask
  marks the pixels where the two frames differ by more than the threshold.\<close>

lemma get_mask_candidate_pair:
  "get_mask_candidate frame [prev] ps =
     map2_image (\<lambda>a b. movement_detection_threshold ps < \<bar>a - b\<bar>) frame prev"
  by (simp add: get_mask_candidate_def get_mask_background_def np_median_single
      map_image_map2_image)

text \<open>
  C4: in both masking policies, if the number of true pixels of the candidate mask at the
  jolt test exceeds \<open>discard_percentage\<close> times the number of pixels, the mask returned
  is all false, of the candidate's shape. In particular this holds for \<open>_get_mask\<close>
  with one previous frame when the two frames differ by more than the threshold on more
  than that fraction of the pixels.
\<close>

theorem jolt_guard:
  "(real (np_size (get_mask_candidate frame last_frames ps)) * discard_percentage ps
      < real (count_nonzero_bool (get_mask_candidate frame last_frames ps)) \<longrightarrow>
    get_mask cv sk frame last_frames ps =
      BoolArray (np_full (np_shape (get_mask_candidate frame last_frames ps)) False) \<and>
    \<not> mask_array_any (get_mask cv sk frame last_frames ps)) \<and>
   (real (np_size (snd (get_mask_mog2_candidate cv subt frame ps))) * discard_percentage ps
      < real (count_nonzero (snd (get_mask_mog2_candidate cv subt frame ps))) \<longrightarrow>
    snd (get_mask_mog2 cv subt frame ps) =
      np_full (np_shape (snd (get_mask_mog2_candidate cv subt frame ps))) False \<and>
    \<not> np_any_bool (snd (get_mask_mog2 cv subt frame ps))) \<and>
   (real (np_size (map2_image (\<lambda>a b. movement_detection_threshold ps < \<bar>a - b\<bar>) frame prev))
        * discard_percentage ps
      < real (count_nonzero_bool
               (map2_image (\<lambda>a b. movement_detection_threshold ps < \<bar>a - b\<bar>) frame prev)) \<longrightarrow>
    \<not> mask_array_any (get_mask cv sk frame [prev] ps))"
proof -
  have median_policy:
    "get_mask cv sk frame fs ps =
       BoolArray (np_full (np_shape (get_mask_candidate frame fs ps)) False) \<and>
     \<not> mask_array_any (get_mask cv sk frame fs ps)"
    if "real (np_size (get_mask_candidate frame fs ps)) * discard_percentage ps
          < real (count_nonzero_bool (get_mask_candidate frame fs ps))" for fs
    using that by (simp add: get_mask_def Let_def mask_array_any_def np_full_False_none)
  have adaptive_policy:
    "snd (get_mask_mog2 cv subt frame ps) =
       np_full (np_shape (snd (get_mask_mog2_candidate cv subt frame ps))) False \<and>
     \<not> np_any_bool (snd (get_mask_mog2 cv subt frame ps))"
    if "real (np_size (snd (get_mask_mog2_candidate cv subt frame ps))) * discard_percentage ps
          < real (count_nonzero (snd (get_mask_mog2_candidate cv subt frame ps)))"
    using that by (simp add: get_mask_mog2_def split_def Let_def np_full_False_none)
  note pair = median_policy [of "[prev]", unfolded get_mask_candidate_pair]
  show ?thesis
    using median_policy [of last_frames] pair adaptive_policy by blast
qed

theorem jolt_guard_witness:
  "real (np_size (get_mask_candidate demo_jolt [demo_blank] demo_params))
        * discard_percentage demo_params
      < real (count_nonzero_bool (get_mask_candidate demo_jolt [demo_blank] demo_params)) \<and>
   get_mask demo_cv demo_sk demo_jolt [demo_blank] demo_params =
      BoolArray [[False, False, False], [False, False, False]] \<and>
   real (np_size (snd (get_mask_mog2_candidate demo_cv [] demo_jolt demo_params)))
        * discard_percentage demo_params
      < real (count_nonzero (snd (get_mask_mog2_candidate demo_cv [] demo_jolt demo_params))) \<and>
   snd (get_mask_mog2 demo_cv [] demo_jolt demo_params) =
      [[False, False, False], [False, False, False]]"
proof -
  have c1: "get_mask_candidate demo_jolt [demo_blank] demo_params =
       [[True, True, True], [True, True, False]]"
    by (simp add: get_mask_candidate_pair map2_image_def demo_params_def demo_jolt_def
        demo_blank_def)
  have c2: "snd (get_mask_mog2_candidate demo_cv [] demo_jolt demo_params) =
       [[255, 255, 255], [255, 255, 0]]"
    by (simp add: get_mask_mog2_candidate_def demo_cv_def map_image_def map2_image_def
        demo_jolt_def)
  have h1: "real (np_size (get_mask_candidate demo_jolt [demo_blank] demo_params))
        * discard_percentage demo_params
      < real (count_nonzero_bool (get_mask_candidate demo_jolt [demo_blank] demo_params))"
    unfolding c1 by (simp add: np_size_def count_nonzero_bool_def demo_params_def)
  have h2: "real (np_size (snd (get_mask_mog2_candidate demo_cv [] demo_jolt demo_params)))
        * discard_percentage demo_params
      < real (count_nonzero (snd (get_mask_mog2_candidate demo_cv [] demo_jolt demo_params)))"
    unfolding c2 by (simp add: np_size_def count_nonzero_def demo_params_def)
  show ?thesis
    using h1 h2
      jolt_guard [where frame = demo_jolt and last_frames = "[demo_blank]"
        and ps = demo_params and cv = demo_cv and sk = demo_sk and subt = "[]"
        and prev = demo_blank]
    by (simp add: c1 c2 np_full_def np_shape_def)
qed

section \<open>Properties of the segmenter\<close>

text \<open>
  C1: when \<open>0 < from_frame < video_length\<close>, frame \<open>from_frame - 1\<close> has no entry in the
  table and no \<open>prev_blobs\<close> is passed, the first \<open>next\<close> of
  \<open>segment_rolling_from(from_frame)\<close> raises and leaves the segmenter as it was: with a
  video attached it is the error that asks for the blobs of frame \<open>from_frame - 1\<close>
  (without one, the check for the video fails before). In particular \<open>resume(2)\<close> on a
  segmenter just built for a video fails: with that same error when the video has more
  than two frames, with the error for a frame that does not exist otherwise.
\<close>

theorem missing_history_raises:
  assumes "0 < from_frame_n" and "from_frame_n < video_length s"
    and "map_of (frames_with_blobs s) (from_frame_n - 1) = None"
  shows "(\<exists>e. gen_next L s (Created from_frame_n None) = (Raise e, s, Finished)) \<and>
         (\<forall>v. video s = Video v \<longrightarrow>
            gen_next L s (Created from_frame_n None) =
              (Raise (ValueError_prev_blobs (from_frame_n - 1)), s, Finished)) \<and>
         (\<forall>cm c v ps s'. Segmenter_init cm c v ps = Inr s' \<longrightarrow>
            gen_next L s' (Created 2 None) =
              (Raise (if 2 < length v then ValueError_prev_blobs 1 else ValueError_no_frame 2),
               s', Finished))"
proof -
  have any_video: "\<exists>e. gen_next L s (Created from_frame_n None) = (Raise e, s, Finished)"
    using assms
    by (cases "video s")
      (simp_all add: segment_rolling_from_def segment_rolling_from_start_def
        resolve_prev_blobs_def)
  have with_video: "gen_next L s (Created from_frame_n None) =
      (Raise (ValueError_prev_blobs (from_frame_n - 1)), s, Finished)"
    if "video s = Video v" for v
    using assms that
    by (simp add: segment_rolling_from_def segment_rolling_from_start_def resolve_prev_blobs_def)
  have fresh: "gen_next L s' (Created 2 None) =
      (Raise (if 2 < length v then ValueError_prev_blobs 1 else ValueError_no_frame 2),
       s', Finished)"
    if "Segmenter_init cm c v ps = Inr s'" for cm c v ps s'
    using that
    by (auto simp add: Segmenter_init_def segment_rolling_from_def
        segment_rolling_from_start_def resolve_prev_blobs_def split: list.splits)
  show ?thesis using any_video with_video fresh by blast
qed

theorem missing_history_raises_witness:
  "(0::int) < 2 \<and> 2 < video_length demo_fresh \<and>
   map_of (frames_with_blobs demo_fresh) (2 - 1) = None \<and>
   video demo_fresh = Video [demo_blank, demo_blank, demo_ant] \<and>
   Segmenter_init demo_common LogWSegmenter [demo_blank, demo_blank, demo_ant] demo_params =
     Inr demo_fresh \<and>
   gen_next demo_libs demo_fresh (Created 2 None) =
     (Raise (ValueError_prev_blobs 1), demo_fresh, Finished)"
proof -
  have "Segmenter_init demo_common LogWSegmenter [demo_blank, demo_blank, demo_ant] demo_params =
      Inr demo_fresh"
    by (simp add: Segmenter_init_def demo_fresh_def demo_common_def np_shape_def demo_blank_def)
  then show ?thesis
    using missing_history_raises [of 2 demo_fresh demo_libs]
    by (simp add: demo_fresh_def)
qed

text \<open>
  C10: on a segmenter with an empty table, the first \<open>next\<close> of
  \<open>segment_rolling_continue()\<close> raises the error of \<open>max\<close> on an empty collection and
  leaves the segmenter as it was. It does not behave like \<open>segment_rolling_from(0)\<close>,
  which on the same segmenter, with a video of at least one frame attached, passes its
  checks and enters the loop over the whole video with no previous blobs.
\<close>

theorem continue_on_empty_table_raises:
  assumes "frames_with_blobs s = []"
  shows "gen_next L s Created_continue = (Raise ValueError_max_empty, s, Finished) \<and>
         (\<forall>v. video s = Video v \<and> 0 < video_length s \<longrightarrow>
            segment_rolling_from_start L s 0 None =
              Inr (create_subtractor (lib_cv L) (movement_detection_history (params s)), [], v))"
proof -
  have raises: "gen_next L s Created_continue = (Raise ValueError_max_empty, s, Finished)"
    using assms by (simp add: segment_rolling_continue_def)
  have "[0 - min h 0..0 - 1] = []" for h :: int
    by simp
  then have "segment_rolling_from_start L s 0 None =
      Inr (create_subtractor (lib_cv L) (movement_detection_history (params s)), [], v)"
    if "video s = Video v" and "0 < video_length s" for v
    using that
    by (simp add: segment_rolling_from_start_def resolve_prev_blobs_def Let_def)
  with raises show ?thesis by blast
qed

theorem continue_on_empty_table_raises_witness:
  "frames_with_blobs demo_fresh = [] \<and>
   gen_next demo_libs demo_fresh Created_continue =
     (Raise ValueError_max_empty, demo_fresh, Finished) \<and>
   segment_rolling_from_start demo_libs demo_fresh 0 None =
     Inr ([], [], [demo_blank, demo_blank, demo_ant])"
  using continue_on_empty_table_raises [of demo_fresh demo_libs]
  by (simp add: demo_fresh_def create_subtractor_def demo_libs_def demo_cv_def)

subsection \<open>The instance, step by step\<close>

lemma demo_history: "movement_detection_history demo_params = 2"
  by (simp add: demo_params_def)

lemma demo_create: "create_subtractor (lib_cv demo_libs) h = []"
  by (simp add: create_subtractor_def demo_libs_def demo_cv_def)

lemma demo_gray: "rgb2gray (lib_common demo_libs) frame = frame"
  by (simp add: demo_libs_def demo_common_def)

lemma demo_apply: "fst (subt_apply (lib_cv demo_libs) st frame) = st @ [frame]"
  by (simp add: demo_libs_def demo_cv_def)

lemma demo_mask_blank:
  "get_mask_mog2 (lib_cv demo_libs) st demo_blank demo_params =
     (st @ [demo_blank], [[False, False, False], [False, False, False]])"
  by (simp add: get_mask_mog2_def get_mask_mog2_candidate_def demo_libs_def demo_cv_def
      demo_blank_def demo_params_def np_shape_def np_full_def zeros_like_def np_size_def
      count_nonzero_def map_image_def map2_image_def astype_bool_def Let_def)

lemma demo_mask_ant:
  "get_mask_mog2 (lib_cv demo_libs) st demo_ant demo_params =
     (st @ [demo_ant], [[True, True, True], [True, True, True]])"
  using pi_less_4
  by (simp add: get_mask_mog2_def get_mask_mog2_candidate_def demo_libs_def demo_cv_def
      demo_ant_def demo_params_def np_shape_def np_full_def zeros_like_def np_size_def
      count_nonzero_def map_image_def map2_image_def astype_bool_def minimum_ant_area_def Let_def)

lemma demo_blobs_ant:
  "length prev_blobs \<le> 1 \<Longrightarrow>
   get_blobs_logw (lib_cv demo_libs) (lib_sk demo_libs) (lib_blob demo_libs) demo_ant
     [[True, True, True], [True, True, True]] demo_params prev_blobs = Inr [demo_ant_blob]"
  using pi_less_4
  by (simp add: get_blobs_logw_def logw_watershed_def demo_libs_def demo_cv_def demo_sk_def
      demo_blob_api_def demo_ant_def demo_params_def demo_ant_blob_def region_blob_def
      np_any_bool_def np_any_def np_shape_def np_full_def zeros_like_def count_nonzero_def
      map_image_def map2_image_def astype_uint8_def minimum_ant_area_def Let_def)

lemma no_movement_logw:
  "get_blobs_logw cv sk bl frame [[False, False, False], [False, False, False]] ps prev = Inr []"
  by (simp add: get_blobs_logw_def np_any_bool_def)

lemma loop_step_replay:
  "map_of (frames_with_blobs s) frame_n = Some blobs \<Longrightarrow>
   loop_step L s subtractor prev_blobs frame_n (frame # rest) =
     (Yield frame_n blobs, s, Suspended subtractor prev_blobs (frame_n + 1) rest)"
  by (simp add: loop_step_def)

lemma demo_loop_step_blank:
  "cls s = LogWSegmenter \<Longrightarrow> params s = demo_params \<Longrightarrow>
   map_of (frames_with_blobs s) frame_n = None \<Longrightarrow>
   loop_step demo_libs s subtractor prev_blobs frame_n (demo_blank # rest) =
     (Yield frame_n [],
      s\<lparr>frames_with_blobs := AList.update frame_n [] (frames_with_blobs s)\<rparr>,
      Suspended (subtractor @ [demo_blank]) [] (frame_n + 1) rest)"
  by (simp add: loop_step_def Segmenter_get_mask_def Segmenter_get_blobs_def demo_gray
      demo_mask_blank no_movement_logw)

lemma demo_loop_step_ant:
  "cls s = LogWSegmenter \<Longrightarrow> params s = demo_params \<Longrightarrow>
   map_of (frames_with_blobs s) frame_n = None \<Longrightarrow> length prev_blobs \<le> 1 \<Longrightarrow>
   loop_step demo_libs s subtractor prev_blobs frame_n (demo_ant # rest) =
     (Yield frame_n [demo_ant_blob],
      s\<lparr>frames_with_blobs := AList.update frame_n [demo_ant_blob] (frames_with_blobs s)\<rparr>,
      Suspended (subtractor @ [demo_ant]) [demo_ant_blob] (frame_n + 1) rest)"
  by (simp add: loop_step_def Segmenter_get_mask_def Segmenter_get_blobs_def demo_gray
      demo_mask_ant demo_blobs_ant)

lemmas demo_eval =
  segment_rolling_from_def segment_rolling_from_start_def resolve_prev_blobs_def video_get_def
  demo_history demo_create demo_gray demo_apply loop_step_replay demo_loop_step_blank
  demo_loop_step_ant Let_def

lemma upto_0_1: "[0..1] = [0, 1::int]"
  by (simp add: upto.simps)

text \<open>The two tables with both frames are reached through the generators, the
  segmenter without frames through \<open>decode\<close>.\<close>

lemma demo_out_of_order_reachable:
  "fst (fst (run demo_libs (demo_two, [])
       [Call_from 1 (Some []), Call_next 0, Call_from 0 None, Call_next 1, Call_next 1])) =
   demo_out_of_order"
  by (simp add: demo_two_def demo_out_of_order_def demo_eval)

lemma demo_in_order_reachable:
  "fst (fst (run demo_libs (demo_two, []) [Call_from 0 None, Call_next 0, Call_next 0])) =
   demo_in_order"
  by (simp add: demo_two_def demo_in_order_def demo_eval)

lemma demo_decoded_empty_reachable:
  "decode demo_api LogWSegmenter
     \<lparr>ser_frames_with_blobs = [], ser_parameters = demo_params, ser_video_length = 0,
      ser_video_shape = (2, 3)\<rparr> = Inr demo_decoded_empty"
  by (simp add: decode_def demo_decoded_empty_def py_dict_def demo_api_def)

subsection \<open>The fully-segmented flag\<close>

text \<open>
  \<open>is_finished\<close> answers \<open>False\<close> on an empty table before \<open>eq_gen_it\<close> is called, so
  this holds whatever \<open>eq_gen_it\<close> computes.
\<close>

lemma empty_table_not_finished:
  "frames_with_blobs s = [] \<Longrightarrow> \<not> is_finished eq_gen_it s"
  by (simp add: is_finished_def)

text \<open>
  C3, as stated, fails: a segmenter decoded from a record without frames and with
  \<open>video_length = 0\<close> has exactly the indices \<open>{0, ..., video_length - 1}\<close> (none),
  and \<open>is_finished\<close> is false, because an empty table is never finished. The comparison
  passed for \<open>eq_gen_it\<close> plays no part: it is not reached
  (\<open>empty_table_not_finished\<close>).
\<close>

theorem is_finished_not_set_equality:
  "\<not> (is_finished (=) demo_decoded_empty \<longleftrightarrow>
        fst ` set (frames_with_blobs demo_decoded_empty) =
          {0..video_length demo_decoded_empty - 1})"
  by (simp add: is_finished_def demo_decoded_empty_def)

lemma sorted_keys_range:
  assumes "sorted ks" and "distinct ks" and "set ks = {0..n - (1::int)}"
  shows "ks = [0..n - 1]"
proof -
  have "sorted [0..n - 1]" and "distinct [0..n - 1]" and "set [0..n - 1] = set ks"
    using assms by simp_all
  then show ?thesis using assms
    by (metis sorted_distinct_set_unique)
qed

text \<open>
  On a table that is not empty the answer is the one of \<open>eq_gen_it\<close>, given the keys
  in the order of their insertion and \<open>range(video_length)\<close>. Two properties of an
  equality test of iterables are used below, each where it is named: it accepts two
  iterables that yield the same sequence, and it rejects two iterables that do not
  hold the same elements. A comparison element by element and a comparison of the
  sets of elements both have them, and they disagree on the complete table that was
  filled in the order 1, 0: what \<open>is_finished\<close> answers there is decided by
  \<open>eq_gen_it\<close> alone, and nothing is stated about it.
\<close>

lemma out_of_order_depends_on_eq_gen_it:
  "\<not> is_finished (=) demo_out_of_order \<and>
   is_finished (\<lambda>xs ys. set xs = set ys) demo_out_of_order"
  by (auto simp add: is_finished_def py_range_def demo_out_of_order_def demo_two_def upto_0_1)

text \<open>
  C3, amended: an empty table is never finished. When \<open>eq_gen_it\<close> rejects iterables
  that do not hold the same elements, \<open>is_finished\<close> implies that the table is not
  empty and that the set of stored indices is exactly \<open>{0, ..., video_length - 1}\<close>:
  a table missing an index, or holding an index above \<open>video_length - 1\<close>, is not
  finished, in whatever order it was filled. When \<open>eq_gen_it\<close> accepts iterables that
  yield the same sequence, a table that is not empty, was filled in ascending order
  and holds exactly the indices \<open>{0, ..., video_length - 1}\<close> is finished.
\<close>

theorem is_finished_nonempty_table:
  "(frames_with_blobs s = [] \<longrightarrow> \<not> is_finished eq_gen_it s) \<and>
   ((\<forall>xs ys. eq_gen_it xs ys \<longrightarrow> set xs = set ys) \<and> is_finished eq_gen_it s \<longrightarrow>
      frames_with_blobs s \<noteq> [] \<and>
      fst ` set (frames_with_blobs s) = {0..video_length s - 1}) \<and>
   ((\<forall>xs. eq_gen_it xs xs) \<and> frames_with_blobs s \<noteq> [] \<and>
    sorted (map fst (frames_with_blobs s)) \<and> distinct (map fst (frames_with_blobs s)) \<and>
    fst ` set (frames_with_blobs s) = {0..video_length s - 1} \<longrightarrow>
      is_finished eq_gen_it s)"
proof (intro conjI impI)
  assume "frames_with_blobs s = []"
  then show "\<not> is_finished eq_gen_it s"
    by (rule empty_table_not_finished)
next
  assume h: "(\<forall>xs ys. eq_gen_it xs ys \<longrightarrow> set xs = set ys) \<and> is_finished eq_gen_it s"
  then have fin: "is_finished eq_gen_it s" and
    sound: "\<And>xs ys. eq_gen_it xs ys \<Longrightarrow> set xs = set ys"
    by simp_all
  show ne: "frames_with_blobs s \<noteq> []"
  proof
    assume "frames_with_blobs s = []"
    then have "\<not> is_finished eq_gen_it s" by (rule empty_table_not_finished)
    then show False using fin by simp
  qed
  have "eq_gen_it (map fst (frames_with_blobs s)) [0..video_length s - 1]"
    using fin ne by (simp add: is_finished_def py_range_def)
  then have "set (map fst (frames_with_blobs s)) = set [0..video_length s - 1]"
    by (rule sound)
  then show "fst ` set (frames_with_blobs s) = {0..video_length s - 1}"
    by simp
next
  assume h: "(\<forall>xs. eq_gen_it xs xs) \<and> frames_with_blobs s \<noteq> [] \<and>
    sorted (map fst (frames_with_blobs s)) \<and> distinct (map fst (frames_with_blobs s)) \<and>
    fst ` set (frames_with_blobs s) = {0..video_length s - 1}"
  then have refl: "\<And>xs. eq_gen_it xs xs"
    and ne: "frames_with_blobs s \<noteq> []"
    and so: "sorted (map fst (frames_with_blobs s))"
    and di: "distinct (map fst (frames_with_blobs s))"
    and ks: "fst ` set (frames_with_blobs s) = {0..video_length s - 1}"
    by simp_all
  have "set (map fst (frames_with_blobs s)) = {0..video_length s - 1}"
    using ks by simp
  with so di have "map fst (frames_with_blobs s) = [0..video_length s - 1]"
    by (rule sorted_keys_range)
  then show "is_finished eq_gen_it s"
    using ne refl by (simp add: is_finished_def py_range_def)
qed

theorem is_finished_nonempty_table_witness:
  "is_finished (\<lambda>xs ys. set xs = set ys) demo_in_order \<and>
   frames_with_blobs demo_in_order \<noteq> [] \<and>
   sorted (map fst (frames_with_blobs demo_in_order)) \<and>
   distinct (map fst (frames_with_blobs demo_in_order)) \<and>
   fst ` set (frames_with_blobs demo_in_order) = {0..video_length demo_in_order - 1} \<and>
   is_finished (=) demo_in_order \<and>
   frames_with_blobs demo_decoded_empty = [] \<and>
   \<not> is_finished (=) demo_decoded_empty"
proof -
  have so: "sorted (map fst (frames_with_blobs demo_in_order))"
    and di: "distinct (map fst (frames_with_blobs demo_in_order))"
    by (simp_all add: demo_in_order_def demo_two_def)
  have em: "frames_with_blobs demo_decoded_empty = []"
    by (simp add: demo_decoded_empty_def)
  have r1: "\<forall>xs :: int list. xs = xs"
    by simp
  have r2: "\<forall>xs ys :: int list. set xs = set ys \<longrightarrow> set xs = set ys"
    by simp
  have f2: "is_finished (\<lambda>xs ys. set xs = set ys) demo_in_order"
    by (simp add: is_finished_def py_range_def demo_in_order_def demo_two_def upto_0_1)
  have nk: "frames_with_blobs demo_in_order \<noteq> [] \<and>
      fst ` set (frames_with_blobs demo_in_order) = {0..video_length demo_in_order - 1}"
    by (rule is_finished_nonempty_table [of demo_in_order "\<lambda>xs ys. set xs = set ys",
          THEN conjunct2, THEN conjunct1, THEN mp]) (intro conjI r2 f2)
  then have ne: "frames_with_blobs demo_in_order \<noteq> []"
    and ks: "fst ` set (frames_with_blobs demo_in_order) = {0..video_length demo_in_order - 1}"
    by simp_all
  have f1: "is_finished (=) demo_in_order"
    by (rule is_finished_nonempty_table [of demo_in_order "(=)",
          THEN conjunct2, THEN conjunct2, THEN mp]) (intro conjI r1 ne so di ks)
  have f3: "\<not> is_finished (=) demo_decoded_empty"
    by (rule is_finished_nonempty_table [of demo_decoded_empty "(=)",
          THEN conjunct1, THEN mp]) (rule em)
  show ?thesis
    by (intro conjI f2 ne so di ks f1 em f3)
qed

subsection \<open>Warm-up of the background subtractor\<close>

lemma warm_up_foldl:
  assumes "\<forall>k \<in> set ks. 0 \<le> k \<and> k < int (length v)"
  shows "warm_up cv cm v subt ks =
           Inr (foldl (\<lambda>st frame. fst (subt_apply cv st frame)) subt
                  (map (\<lambda>k. rgb2gray cm (v ! nat k)) ks))"
  using assms by (induction ks arbitrary: subt) (simp_all add: video_get_def)

text \<open>
  C8: a call \<open>segment_rolling_from(from_frame)\<close> that passes its checks, on a video that
  has the frames before \<open>from_frame\<close>, creates a subtractor and applies it, in ascending
  order, to the grayscale frames \<open>from_frame - n, ..., from_frame - 1\<close>, where
  \<open>n = min(movement_detection_history, from_frame)\<close>, keeping only its state: these are
  \<open>n\<close> frames when the history is not negative. The loop then starts at
  \<open>from_frame\<close> with this subtractor, whatever earlier calls did.
\<close>

theorem warm_up_frames:
  assumes "video s = Video v" and "0 \<le> from_frame_n" and "from_frame_n < video_length s"
    and "from_frame_n \<le> int (length v)"
    and "resolve_prev_blobs s from_frame_n prev_blobs = Inr blobs"
    and "n = min (movement_detection_history (params s)) from_frame_n"
    and "fed = map (\<lambda>k. rgb2gray (lib_common L) (v ! nat k)) [from_frame_n - n..from_frame_n - 1]"
    and "warm = foldl (\<lambda>st frame. fst (subt_apply (lib_cv L) st frame))
                  (create_subtractor (lib_cv L) (movement_detection_history (params s))) fed"
  shows "segment_rolling_from_start L s from_frame_n prev_blobs =
           Inr (warm, blobs, drop (nat from_frame_n) v) \<and>
         gen_next L s (Created from_frame_n prev_blobs) =
           loop_step L s warm blobs from_frame_n (drop (nat from_frame_n) v) \<and>
         (0 \<le> movement_detection_history (params s) \<longrightarrow> int (length fed) = n)"
proof -
  have "\<forall>k \<in> set [from_frame_n - n..from_frame_n - 1]. 0 \<le> k \<and> k < int (length v)"
    using assms(2,4,6) by auto
  then have "warm_up (lib_cv L) (lib_common L) v
               (create_subtractor (lib_cv L) (movement_detection_history (params s)))
               [from_frame_n - n..from_frame_n - 1] = Inr warm"
    unfolding assms(7,8) by (rule warm_up_foldl)
  then have start: "segment_rolling_from_start L s from_frame_n prev_blobs =
           Inr (warm, blobs, drop (nat from_frame_n) v)"
    using assms(1,2,3,5,6) by (simp add: segment_rolling_from_start_def Let_def)
  then have "gen_next L s (Created from_frame_n prev_blobs) =
           loop_step L s warm blobs from_frame_n (drop (nat from_frame_n) v)"
    by (simp add: segment_rolling_from_def)
  moreover have "int (length fed) = n" if "0 \<le> movement_detection_history (params s)"
    using that assms(2,6,7) by simp
  ultimately show ?thesis using start by blast
qed

theorem warm_up_frames_witness:
  "video demo_fresh = Video [demo_blank, demo_blank, demo_ant] \<and> (0::int) \<le> 2 \<and>
   2 < video_length demo_fresh \<and> 2 \<le> int (length [demo_blank, demo_blank, demo_ant]) \<and>
   resolve_prev_blobs demo_fresh 2 (Some []) = Inr [] \<and>
   segment_rolling_from_start demo_libs demo_fresh 2 (Some []) =
     Inr ([demo_blank, demo_blank], [], [demo_ant])"
proof -
  have r: "resolve_prev_blobs demo_fresh 2 (Some []) = Inr []"
    by (simp add: resolve_prev_blobs_def demo_fresh_def)
  show ?thesis
    using r warm_up_frames [where s = demo_fresh and v = "[demo_blank, demo_blank, demo_ant]"
        and from_frame_n = 2 and prev_blobs = "Some []" and blobs = "[]" and L = demo_libs,
        OF _ _ _ _ r refl refl refl]
    by (simp add: demo_fresh_def demo_history demo_create demo_apply demo_gray upto_0_1)
qed

subsection \<open>The previous blobs handed to the extractor\<close>

text \<open>A frame that is not in the table is extracted with the generator's current
  \<open>prev_blobs\<close>.\<close>

lemma loop_step_compute:
  assumes "map_of (frames_with_blobs s) frame_n = None"
    and "Segmenter_get_mask L s subtractor (rgb2gray (lib_common L) frame) = (subtractor', m)"
  shows "loop_step L s subtractor prev_blobs frame_n (frame # rest) =
           (case Segmenter_get_blobs L s (rgb2gray (lib_common L) frame) m prev_blobs of
              Inl e \<Rightarrow> (Raise e, s, Finished)
            | Inr blobs \<Rightarrow>
                (Yield frame_n blobs,
                 s\<lparr>frames_with_blobs := AList.update frame_n blobs (frames_with_blobs s)\<rparr>,
                 Suspended subtractor' blobs (frame_n + 1) rest))"
  using assms by (simp add: loop_step_def)

text \<open>
  C2 fails on the code: a frame taken from the table is yielded without assigning
  \<open>prev_blobs\<close>. On the video \<open>blank, ant, ant\<close> a first generator segments frames 0
  and 1 (frame 1 has one blob); a second generator started at frame 0 replays both
  frames. Both generators are then suspended before frame 2, which is not in the table:
  the first holds the blobs of frame 1 as \<open>prev_blobs\<close>, the second still holds the
  empty list it started with, and that is what its next step hands to the extractor.
\<close>

theorem replay_leaves_prev_blobs_stale:
  "run demo_libs (demo_three, [])
     [Call_from 0 None, Call_next 0, Call_next 0, Call_from 0 None, Call_next 1, Call_next 1] =
   ((demo_three\<lparr>frames_with_blobs := [(0, []), (1, [demo_ant_blob])]\<rparr>,
     [Suspended [demo_blank, demo_ant] [demo_ant_blob] 2 [demo_ant],
      Suspended [] [] 2 [demo_ant]]),
    [Yield 0 [], Yield 1 [demo_ant_blob], Yield 0 [], Yield 1 [demo_ant_blob]])"
  by (simp add: demo_three_def demo_eval)

subsection \<open>The table and the frames visited\<close>

lemma keys_update: "fst ` set (AList.update k v al) = insert k (fst ` set al)"
  by (simp add: AList.dom_update)

lemma loop_step_table:
  assumes "loop_step L s subt pb n frames = (out, s', g')"
  shows "fst ` set (frames_with_blobs s') = fst ` set (frames_with_blobs s) \<union> set (yielded_frames [out]) \<and>
         map_of (frames_with_blobs s) \<subseteq>\<^sub>m map_of (frames_with_blobs s')"
proof (cases frames)
  case Nil
  with assms show ?thesis by (auto simp add: loop_step_def)
next
  case (Cons frame rest)
  show ?thesis
  proof (cases "map_of (frames_with_blobs s) n")
    case (Some blobs)
    then have "n \<in> fst ` set (frames_with_blobs s)"
      by (metis domI dom_map_of_conv_image_fst)
    moreover from assms Cons Some have "out = Yield n blobs" and "s' = s"
      by (simp_all add: loop_step_def)
    ultimately show ?thesis by auto
  next
    case None
    obtain subt' m where mask: "Segmenter_get_mask L s subt (rgb2gray (lib_common L) frame) = (subt', m)"
      by (metis surj_pair)
    show ?thesis
    proof (cases "Segmenter_get_blobs L s (rgb2gray (lib_common L) frame) m pb")
      case (Inl e)
      with assms Cons None mask have "out = Raise e" and "s' = s"
        by (simp_all add: loop_step_def)
      then show ?thesis by simp
    next
      case (Inr blobs)
      with assms Cons None mask have out: "out = Yield n blobs"
        and s': "frames_with_blobs s' = AList.update n blobs (frames_with_blobs s)"
        by (auto simp add: loop_step_def)
      have "map_of (frames_with_blobs s) \<subseteq>\<^sub>m map_of (frames_with_blobs s')"
        using None by (auto simp add: s' update_conv' map_le_def)
      moreover have "fst ` set (frames_with_blobs s') = insert n (fst ` set (frames_with_blobs s))"
        by (simp add: s' keys_update)
      ultimately show ?thesis by (simp add: out)
    qed
  qed
qed

lemma gen_next_table:
  assumes "gen_next L s g = (out, s', g')"
  shows "fst ` set (frames_with_blobs s') = fst ` set (frames_with_blobs s) \<union> set (yielded_frames [out]) \<and>
         map_of (frames_with_blobs s) \<subseteq>\<^sub>m map_of (frames_with_blobs s')"
proof -
  have from_call: "fst ` set (frames_with_blobs s') = fst ` set (frames_with_blobs s) \<union> set (yielded_frames [out]) \<and>
         map_of (frames_with_blobs s) \<subseteq>\<^sub>m map_of (frames_with_blobs s')"
    if "segment_rolling_from L s k pb = (out, s', g')" for k pb
  proof (cases "segment_rolling_from_start L s k pb")
    case (Inl e)
    with that show ?thesis by (auto simp add: segment_rolling_from_def)
  next
    case (Inr r)
    obtain subt blobs frames where "r = (subt, blobs, frames)"
      by (cases r) auto
    with that Inr have "loop_step L s subt blobs k frames = (out, s', g')"
      by (simp add: segment_rolling_from_def)
    then show ?thesis by (rule loop_step_table)
  qed
  show ?thesis
  proof (cases g)
    case (Created k pb)
    with assms from_call show ?thesis by simp
  next
    case Created_continue
    with assms from_call show ?thesis
      by (auto simp add: segment_rolling_continue_def split: sum.splits)
  next
    case (Suspended subt pb n frames)
    with assms have "loop_step L s subt pb n frames = (out, s', g')" by simp
    then show ?thesis by (rule loop_step_table)
  next
    case Finished
    with assms show ?thesis by auto
  qed
qed

lemma yielded_frames_append: "yielded_frames (xs @ ys) = yielded_frames xs @ yielded_frames ys"
  by (induction xs rule: yielded_frames.induct) simp_all

lemma sys_step_table:
  assumes "sys_step L (s, gs) e = ((s', gs'), outs)"
  shows "fst ` set (frames_with_blobs s') = fst ` set (frames_with_blobs s) \<union> set (yielded_frames outs) \<and>
         map_of (frames_with_blobs s) \<subseteq>\<^sub>m map_of (frames_with_blobs s')"
proof (cases e)
  case (Call_next i)
  show ?thesis
  proof (cases "i < length gs")
    case True
    obtain out s1 g1 where g: "gen_next L s (gs ! i) = (out, s1, g1)"
      by (cases "gen_next L s (gs ! i)") auto
    with assms Call_next True have "s' = s1" and "outs = [out]" by auto
    with gen_next_table [OF g] show ?thesis by simp
  next
    case False
    with assms Call_next show ?thesis by auto
  qed
qed (use assms in \<open>auto simp add: set_video_def\<close>)

lemma run_table:
  assumes "run L (s, gs) evs = ((s', gs'), outs)"
  shows "fst ` set (frames_with_blobs s') = fst ` set (frames_with_blobs s) \<union> set (yielded_frames outs) \<and>
         map_of (frames_with_blobs s) \<subseteq>\<^sub>m map_of (frames_with_blobs s')"
  using assms
proof (induction evs arbitrary: s gs outs s' gs')
  case Nil
  then show ?case by simp
next
  case (Cons e evs)
  obtain s1 gs1 outs1 where step: "sys_step L (s, gs) e = ((s1, gs1), outs1)"
    by (metis surj_pair)
  obtain s2 gs2 outs2 where rest: "run L (s1, gs1) evs = ((s2, gs2), outs2)"
    by (metis surj_pair)
  from Cons.prems step rest have eq: "s' = s2" "outs = outs1 @ outs2" by auto
  from sys_step_table [OF step] Cons.IH [OF rest] eq show ?case
    by (auto simp add: yielded_frames_append intro: map_le_trans)
qed

lemma run_append:
  "run L st (es1 @ es2) =
     (case run L st es1 of (st1, outs1) \<Rightarrow>
        (case run L st1 es2 of (st2, outs2) \<Rightarrow> (st2, outs1 @ outs2)))"
  by (induction es1 arbitrary: st) (auto split: prod.splits)

lemma run_prefix_table:
  "map_of (frames_with_blobs (fst (fst (run L (s, gs) es1)))) \<subseteq>\<^sub>m
   map_of (frames_with_blobs (fst (fst (run L (s, gs) (es1 @ es2)))))"
proof -
  obtain s1 gs1 outs1 where r1: "run L (s, gs) es1 = ((s1, gs1), outs1)"
    by (metis surj_pair)
  obtain s2 gs2 outs2 where r2: "run L (s1, gs1) es2 = ((s2, gs2), outs2)"
    by (metis surj_pair)
  from run_table [OF r2] show ?thesis
    by (simp add: run_append r1 r2)
qed

text \<open>
  C9: whatever generators a caller creates and however it advances them, the frame
  indices in the table afterwards are those it held before together with the indices
  yielded, and every entry it held before, or at any moment of the run, is still there at
  the end with the same list. Starting from an empty table, the indices stored are
  exactly the indices yielded.
\<close>

theorem table_is_frames_visited:
  "fst ` set (frames_with_blobs (fst (fst (run L (s, gs) evs)))) =
     fst ` set (frames_with_blobs s) \<union> set (yielded_frames (snd (run L (s, gs) evs))) \<and>
   map_of (frames_with_blobs s) \<subseteq>\<^sub>m map_of (frames_with_blobs (fst (fst (run L (s, gs) evs)))) \<and>
   (\<forall>es1 es2. evs = es1 @ es2 \<longrightarrow>
      map_of (frames_with_blobs (fst (fst (run L (s, gs) es1)))) \<subseteq>\<^sub>m
      map_of (frames_with_blobs (fst (fst (run L (s, gs) evs))))) \<and>
   (frames_with_blobs s = [] \<longrightarrow>
      fst ` set (frames_with_blobs (fst (fst (run L (s, gs) evs)))) =
        set (yielded_frames (snd (run L (s, gs) evs))))"
proof -
  obtain s' gs' outs where r: "run L (s, gs) evs = ((s', gs'), outs)"
    by (metis surj_pair)
  from run_table [OF r] have
    "fst ` set (frames_with_blobs (fst (fst (run L (s, gs) evs)))) =
       fst ` set (frames_with_blobs s) \<union> set (yielded_frames (snd (run L (s, gs) evs)))"
    and "map_of (frames_with_blobs s) \<subseteq>\<^sub>m
       map_of (frames_with_blobs (fst (fst (run L (s, gs) evs))))"
    by (simp_all add: r)
  moreover have "\<forall>es1 es2. evs = es1 @ es2 \<longrightarrow>
      map_of (frames_with_blobs (fst (fst (run L (s, gs) es1)))) \<subseteq>\<^sub>m
      map_of (frames_with_blobs (fst (fst (run L (s, gs) evs))))"
    using run_prefix_table by blast
  ultimately show ?thesis by simp
qed

theorem table_is_frames_visited_witness:
  "frames_with_blobs demo_three = [] \<and>
   [Call_from 0 None, Call_next 0, Call_next 0, Call_from 0 None, Call_next 1] =
     [Call_from 0 None, Call_next 0] @ [Call_next 0, Call_from 0 None, Call_next 1] \<and>
   fst ` set (frames_with_blobs (fst (fst (run demo_libs (demo_three, [])
      [Call_from 0 None, Call_next 0, Call_next 0, Call_from 0 None, Call_next 1])))) =
   set (yielded_frames (snd (run demo_libs (demo_three, [])
      [Call_from 0 None, Call_next 0, Call_next 0, Call_from 0 None, Call_next 1]))) \<and>
   map_of (frames_with_blobs (fst (fst (run demo_libs (demo_three, [])
      [Call_from 0 None, Call_next 0])))) \<subseteq>\<^sub>m
   map_of (frames_with_blobs (fst (fst (run demo_libs (demo_three, [])
      [Call_from 0 None, Call_next 0, Call_next 0, Call_from 0 None, Call_next 1]))))"
proof -
  let ?evs = "[Call_from 0 None, Call_next 0, Call_next 0, Call_from 0 None, Call_next 1]"
  let ?es1 = "[Call_from 0 None, Call_next 0]"
  let ?es2 = "[Call_next 0, Call_from 0 None, Call_next 1]"
  note t = table_is_frames_visited [of demo_libs demo_three "[]" ?evs]
  have empty: "frames_with_blobs demo_three = []"
    by (simp add: demo_three_def)
  have split: "?evs = ?es1 @ ?es2"
    by simp
  from t have "frames_with_blobs demo_three = [] \<longrightarrow>
      fst ` set (frames_with_blobs (fst (fst (run demo_libs (demo_three, []) ?evs)))) =
        set (yielded_frames (snd (run demo_libs (demo_three, []) ?evs)))"
    by (elim conjE)
  with empty have visited:
    "fst ` set (frames_with_blobs (fst (fst (run demo_libs (demo_three, []) ?evs)))) =
       set (yielded_frames (snd (run demo_libs (demo_three, []) ?evs)))"
    by (rule rev_mp)
  from t have prefixes: "\<forall>es1 es2. ?evs = es1 @ es2 \<longrightarrow>
      map_of (frames_with_blobs (fst (fst (run demo_libs (demo_three, []) es1)))) \<subseteq>\<^sub>m
      map_of (frames_with_blobs (fst (fst (run demo_libs (demo_three, []) ?evs))))"
    by (elim conjE)
  have kept:
    "map_of (frames_with_blobs (fst (fst (run demo_libs (demo_three, []) ?es1)))) \<subseteq>\<^sub>m
     map_of (frames_with_blobs (fst (fst (run demo_libs (demo_three, []) ?evs))))"
    by (rule prefixes [rule_format, OF split])
  show ?thesis
    by (intro conjI empty split visited kept)
qed

text \<open>The table stays a dictionary: its keys stay distinct.\<close>

lemma loop_step_distinct:
  assumes "loop_step L s subt pb n frames = (out, s', g')"
    and "distinct (map fst (frames_with_blobs s))"
  shows "distinct (map fst (frames_with_blobs s'))"
  using assms
  by (auto simp add: loop_step_def Let_def distinct_update
      split: list.splits option.splits prod.splits sum.splits)

lemma gen_next_distinct:
  assumes "gen_next L s g = (out, s', g')"
    and "distinct (map fst (frames_with_blobs s))"
  shows "distinct (map fst (frames_with_blobs s'))"
proof -
  have from_call: "distinct (map fst (frames_with_blobs s'))"
    if "segment_rolling_from L s k pb = (out, s', g')" for k pb
    using that assms(2)
    by (auto simp add: segment_rolling_from_def dest: loop_step_distinct split: sum.splits prod.splits)
  show ?thesis
  proof (cases g)
    case (Created k pb)
    with assms from_call show ?thesis by simp
  next
    case Created_continue
    with assms from_call show ?thesis
      by (auto simp add: segment_rolling_continue_def split: sum.splits)
  next
    case (Suspended subt pb n frames)
    with assms show ?thesis by (auto dest: loop_step_distinct)
  next
    case Finished
    with assms show ?thesis by auto
  qed
qed

lemma run_distinct:
  assumes "run L (s, gs) evs = ((s', gs'), outs)"
    and "distinct (map fst (frames_with_blobs s))"
  shows "distinct (map fst (frames_with_blobs s'))"
  using assms
proof (induction evs arbitrary: s gs outs)
  case Nil
  then show ?case by simp
next
  case (Cons e evs)
  obtain s1 gs1 outs1 where step: "sys_step L (s, gs) e = ((s1, gs1), outs1)"
    by (metis surj_pair)
  obtain s2 gs2 outs2 where rest: "run L (s1, gs1) evs = ((s2, gs2), outs2)"
    by (metis surj_pair)
  from Cons.prems(1) step rest have eq: "s2 = s'" "gs2 = gs'" by auto
  have "distinct (map fst (frames_with_blobs s1))"
  proof (cases e)
    case (Call_next i)
    show ?thesis
    proof (cases "i < length gs")
      case True
      obtain out sa ga where g: "gen_next L s (gs ! i) = (out, sa, ga)"
        by (metis surj_pair)
      with step Call_next True have "s1 = sa" by auto
      with gen_next_distinct [OF g Cons.prems(2)] show ?thesis by simp
    next
      case False
      with step Call_next Cons.prems(2) show ?thesis by auto
    qed
  qed (use step Cons.prems(2) in \<open>auto simp add: set_video_def\<close>)
  with Cons.IH [of s1 gs1 outs2] rest eq show ?case by simp
qed


section \<open>Properties of the extractors\<close>

lemma region_blobs_filter:
  "region_blobs bl frame labels ps props =
     map (region_blob bl frame labels ps)
       (filter (\<lambda>p. minimum_ant_area (minimum_ant_radius ps) \<le> real (area p)) props)"
  by (induction props) (simp_all add: not_less)

lemma region_blobs_big:
  assumes "b \<in> set (region_blobs bl frame labels ps (sk_regionprops sk labels))"
  shows "\<exists>labels. \<exists>p \<in> set (sk_regionprops sk labels).
           minimum_ant_area (minimum_ant_radius ps) \<le> real (area p) \<and>
           b = region_blob bl frame labels ps p"
  using assms unfolding region_blobs_filter by auto

lemma logw_watershed_big:
  assumes "logw_watershed sk bl frame intensity_mask ps prev_blobs = Inr (blobs, zone)"
    and "b \<in> set blobs"
  shows "\<exists>labels. \<exists>p \<in> set (sk_regionprops sk labels).
           minimum_ant_area (minimum_ant_radius ps) \<le> real (area p) \<and>
           b = region_blob bl frame labels ps p"
  using assms
  by (auto simp add: logw_watershed_def Let_def dest: region_blobs_big
      split: if_splits sum.splits prod.splits)

lemma get_blobs_logw_big:
  assumes "get_blobs_logw cv sk bl frame movement_mask ps prev_blobs = Inr blobs"
    and "b \<in> set blobs"
  shows "\<exists>labels. \<exists>p \<in> set (sk_regionprops sk labels).
           minimum_ant_area (minimum_ant_radius ps) \<le> real (area p) \<and>
           b = region_blob bl frame labels ps p"
  using assms
  by (auto simp add: get_blobs_logw_def Let_def dest: region_blobs_big logw_watershed_big
      split: if_splits sum.splits prod.splits error.splits)

lemma get_blobs_doh_big:
  assumes "get_blobs_doh sk bl frame movement_mask ps = Inr blobs"
    and "b \<in> set blobs"
  shows "\<exists>labels. \<exists>p \<in> set (sk_regionprops sk labels).
           minimum_ant_area (minimum_ant_radius ps) \<le> real (area p) \<and>
           b = region_blob bl frame labels ps p"
  using assms
  by (auto simp add: get_blobs_doh_def get_blobs_in_frame_with_steps_doh_def Let_def
      dest: region_blobs_big split: if_splits sum.splits prod.splits)

text \<open>
  C5: the loop that builds the blobs keeps exactly the regions whose area is at least
  \<open>pi * minimum_ant_radius\<^sup>2\<close>, in their order, so a region with a smaller area never
  produces a blob; and every blob that either extractor returns was built from a region
  reported by \<open>regionprops\<close> whose area is at least \<open>minimum_ant_area\<close> of the radius.
\<close>

theorem area_filter:
  "region_blobs bl frame labels ps props =
     map (region_blob bl frame labels ps)
       (filter (\<lambda>p. pi * (minimum_ant_radius ps)\<^sup>2 \<le> real (area p)) props) \<and>
   (\<forall>blobs b.
      (get_blobs_logw cv sk bl frame movement_mask ps prev_blobs = Inr blobs \<or>
       get_blobs_doh sk bl frame movement_mask ps = Inr blobs) \<and> b \<in> set blobs \<longrightarrow>
      (\<exists>labels. \<exists>p \<in> set (sk_regionprops sk labels).
         minimum_ant_area (minimum_ant_radius ps) \<le> real (area p) \<and>
         b = region_blob bl frame labels ps p))"
  using region_blobs_filter [of bl frame labels ps props]
    get_blobs_logw_big [of cv sk bl frame movement_mask ps prev_blobs]
    get_blobs_doh_big [of sk bl frame movement_mask ps]
  by (auto simp add: minimum_ant_area_def)

lemma demo_libs_parts:
  "lib_cv demo_libs = demo_cv" "lib_sk demo_libs = demo_sk" "lib_blob demo_libs = demo_blob_api"
  "lib_common demo_libs = demo_common"
  by (simp_all add: demo_libs_def)

theorem area_filter_witness:
  "get_blobs_logw demo_cv demo_sk demo_blob_api demo_ant demo_all_true demo_params [] =
     Inr [demo_ant_blob] \<and>
   demo_ant_blob \<in> set [demo_ant_blob] \<and>
   (\<exists>labels. \<exists>p \<in> set (sk_regionprops demo_sk labels).
      minimum_ant_area (minimum_ant_radius demo_params) \<le> real (area p) \<and>
      demo_ant_blob = region_blob demo_blob_api demo_ant labels demo_params p)"
proof -
  have run: "get_blobs_logw demo_cv demo_sk demo_blob_api demo_ant demo_all_true demo_params [] =
     Inr [demo_ant_blob]"
    using demo_blobs_ant [of "[]"] by (simp add: demo_libs_parts demo_all_true_def)
  moreover have "demo_ant_blob \<in> set [demo_ant_blob]" by simp
  ultimately show ?thesis
    using area_filter [of demo_blob_api demo_ant "[]" demo_params "[]" demo_cv demo_sk
        demo_all_true "[]"]
    by blast
qed

text \<open>What a failing threshold does to each extractor: variant A catches \<open>IndexError\<close> and
  returns no blobs, variant B has no handler and raises.\<close>

lemma logw_recovers_from_threshold_failure:
  assumes "\<And>im. sk_threshold_isodata sk im = Inl IndexError"
  shows "get_blobs_logw cv sk bl frame movement_mask ps prev_blobs = Inr []"
  using assms by (simp add: get_blobs_logw_def Let_def)

lemma doh_raises_on_threshold_failure:
  assumes "\<And>im. sk_threshold_isodata sk im = Inl e" and "np_any_bool movement_mask"
  shows "\<exists>e'. get_blobs_doh sk bl frame movement_mask ps = Inl e'"
  using assms
  by (simp add: get_blobs_doh_def get_blobs_in_frame_with_steps_doh_def Let_def
      split: sum.splits)

lemma demo_doh_fails:
  "get_blobs_doh demo_sk_failing bl demo_ant demo_all_true ps = Inl IndexError"
  by (simp add: get_blobs_doh_def get_blobs_in_frame_with_steps_doh_def demo_sk_failing_def
      demo_sk_def demo_all_true_def demo_ant_def np_any_bool_def map2_image_def map_image_def
      zeros_like_def np_full_def np_shape_def Let_def)

lemma demo_logw_recovers:
  "get_blobs_logw demo_cv demo_sk_failing demo_blob_api demo_ant demo_all_true demo_params [] =
     Inr []"
  by (rule logw_recovers_from_threshold_failure) (simp add: demo_sk_failing_def)

lemma no_movement_doh:
  "get_blobs_doh sk bl frame [[False, False, False], [False, False, False]] ps = Inr []"
  by (simp add: get_blobs_doh_def get_blobs_in_frame_with_steps_doh_def np_any_bool_def)

text \<open>
  C6 fails on the code for variant B: with a threshold function that raises
  \<open>IndexError\<close>, on the frame with the bright pixel and a mask that is true everywhere,
  \<open>_get_blobs_logw\<close> returns no blobs whereas \<open>_get_blobs_doh\<close> raises; and a
  \<open>DohSegmenter\<close> run over the video \<open>blank, ant, ant\<close> yields frame 0, raises at frame
  1 without storing it, and its generator is finished.
\<close>

theorem doh_threshold_failure_escapes:
  "get_blobs_logw demo_cv demo_sk_failing demo_blob_api demo_ant demo_all_true demo_params [] =
     Inr [] \<and>
   get_blobs_doh demo_sk_failing demo_blob_api demo_ant demo_all_true demo_params =
     Inl IndexError \<and>
   run demo_libs_failing (demo_doh, []) [Call_from 0 None, Call_next 0, Call_next 0, Call_next 0] =
     ((demo_doh\<lparr>frames_with_blobs := [(0, [])]\<rparr>, [Finished]),
      [Yield 0 [], Raise IndexError, StopIteration])"
proof -
  have "run demo_libs_failing (demo_doh, [])
          [Call_from 0 None, Call_next 0, Call_next 0, Call_next 0] =
     ((demo_doh\<lparr>frames_with_blobs := [(0, [])]\<rparr>, [Finished]),
      [Yield 0 [], Raise IndexError, StopIteration])"
    by (simp add: demo_doh_fails [unfolded demo_all_true_def]
        demo_doh_def demo_three_def demo_libs_failing_def segment_rolling_from_def
        segment_rolling_from_start_def resolve_prev_blobs_def loop_step_def
        Segmenter_get_mask_def Segmenter_get_blobs_def demo_history demo_create demo_gray
        demo_mask_blank demo_mask_ant no_movement_doh Let_def)
  with demo_logw_recovers demo_doh_fails show ?thesis by blast
qed

section \<open>Properties of the serialisation\<close>

lemma is_digit_digit_char: "d < 10 \<Longrightarrow> is_digit (digit_char d)"
  by (simp add: is_digit_def digit_char_def)

lemma digit_val_digit_char: "d < 10 \<Longrightarrow> digit_val (digit_char d) = d"
  by (simp add: digit_val_def digit_char_def)

lemma str_nat_digits: "list_all is_digit (str_nat n)"
proof (induction n rule: str_nat.induct)
  case (1 n)
  then show ?case
    by (simp add: str_nat.simps [of n] is_digit_digit_char)
qed

lemma str_nat_nonempty: "str_nat n \<noteq> []"
  by (simp add: str_nat.simps [of n])

lemma str_nat_value: "foldl (\<lambda>acc c. 10 * acc + digit_val c) 0 (str_nat n) = n"
proof (induction n rule: str_nat.induct)
  case (1 n)
  then show ?case
    by (simp add: str_nat.simps [of n] digit_val_digit_char)
qed

lemma parse_nat_str_nat: "parse_nat (str_nat n) = Inr n"
  by (simp add: parse_nat_def str_nat_nonempty str_nat_digits str_nat_value)

lemma hd_str_nat_digit: "is_digit (hd (str_nat n))"
  using str_nat_digits [of n] str_nat_nonempty [of n]
  by (cases "str_nat n") simp_all

lemma hd_str_nat_no_sign: "hd (str_nat n) \<noteq> CHR ''-''" "hd (str_nat n) \<noteq> CHR ''+''"
  using hd_str_nat_digit [of n] by (auto simp add: is_digit_def)

text \<open>The key of a frame is parsed back to the frame number.\<close>

lemma FrameNumber_py_str: "FrameNumber (py_str i) = Inr i"
  by (simp add: FrameNumber_def py_str_def parse_nat_str_nat str_nat_nonempty hd_str_nat_no_sign)

lemma py_str_inj: "inj py_str"
proof (rule injI)
  fix i j assume "py_str i = py_str j"
  then have "FrameNumber (py_str i) = FrameNumber (py_str j)" by simp
  then show "i = j" by (simp add: FrameNumber_py_str)
qed

lemma update_fresh: "k \<notin> fst ` set al \<Longrightarrow> AList.update k v al = al @ [(k, v)]"
  by (induction al) auto

lemma foldl_update_distinct:
  assumes "distinct (map fst (acc @ pairs))"
  shows "foldl (\<lambda>d kv. AList.update (fst kv) (snd kv) d) acc pairs = acc @ pairs"
  using assms
proof (induction pairs arbitrary: acc)
  case Nil
  then show ?case by simp
next
  case (Cons kv pairs)
  from Cons.prems have "fst kv \<notin> fst ` set acc" by auto
  then have "AList.update (fst kv) (snd kv) acc = acc @ [kv]"
    by (simp add: update_fresh)
  moreover from Cons.prems have "distinct (map fst ((acc @ [kv]) @ pairs))" by simp
  ultimately show ?case using Cons.IH [of "acc @ [kv]"] by simp
qed

text \<open>A comprehension over pairs with distinct keys yields these pairs, in order.\<close>

lemma py_dict_distinct: "distinct (map fst pairs) \<Longrightarrow> py_dict pairs = pairs"
  using foldl_update_distinct [of "[]" pairs] by (simp add: py_dict_def)

lemma decode_items_encoded:
  "decode_items api shape (map (\<lambda>(frame, blobs). (py_str frame, map (blob_encode api) blobs)) table) =
     Inr (map (\<lambda>(frame, blobs). (frame, map (\<lambda>b. blob_decode api (blob_encode api b) shape) blobs)) table)"
  by (induction table) (auto simp add: FrameNumber_py_str comp_def)

lemma decode_encode_eq:
  assumes "distinct (map fst (frames_with_blobs x))"
  shows "decode api c (encode api x) =
     Inr \<lparr>cls = c, video = Missing,
          frames_with_blobs =
            map (\<lambda>(frame, blobs).
                   (frame, map (\<lambda>b. blob_decode api (blob_encode api b) (video_shape x)) blobs))
              (frames_with_blobs x),
          params = SegmenterParameters api (params_items api (params x)),
          video_length = video_length x, video_shape = video_shape x\<rparr>"
proof -
  let ?enc = "\<lambda>(frame, blobs). (py_str frame, map (blob_encode api) blobs)"
  let ?dec = "\<lambda>(frame, blobs).
     (frame, map (\<lambda>b. blob_decode api (blob_encode api b) (video_shape x)) blobs)"
  have "map fst (map ?enc (frames_with_blobs x)) = map py_str (map fst (frames_with_blobs x))"
    by (simp add: comp_def split_def)
  moreover have "distinct (map py_str (map fst (frames_with_blobs x)))"
    using assms py_str_inj by (simp add: distinct_map inj_on_def inj_def)
  ultimately have "distinct (map fst (map ?enc (frames_with_blobs x)))"
    by (simp only:)
  then have "py_dict (map ?enc (frames_with_blobs x)) = map ?enc (frames_with_blobs x)"
    by (rule py_dict_distinct)
  then have enc: "ser_frames_with_blobs (encode api x) = map ?enc (frames_with_blobs x)"
    by (simp add: encode_def)
  have "map fst (map ?dec (frames_with_blobs x)) = map fst (frames_with_blobs x)"
    by (simp add: comp_def split_def)
  with assms have "distinct (map fst (map ?dec (frames_with_blobs x)))"
    by (simp only:)
  then have dec: "py_dict (map ?dec (frames_with_blobs x)) = map ?dec (frames_with_blobs x)"
    by (rule py_dict_distinct)
  have items: "decode_items api (video_shape x) (ser_frames_with_blobs (encode api x)) =
      Inr (map ?dec (frames_with_blobs x))"
    unfolding enc by (rule decode_items_encoded)
  have shape: "ser_video_shape (encode api x) = video_shape x"
    by (simp add: encode_def)
  show ?thesis
    unfolding decode_def Let_def shape items
    by (simp add: dec) (simp add: encode_def)
qed


lemma map_of_map_values:
  "map_of (map (\<lambda>(k, v). (k, f v)) al) k = map_option f (map_of al k)"
  by (induction al) auto

text \<open>
  C7: for a segmenter \<open>x\<close> (its table a dictionary, so with distinct keys),
  \<open>decode(encode(x))\<close> succeeds and gives a segmenter with the same \<open>video_length\<close>
  and \<open>video_shape\<close> and the same frame numbers in the same order; every frame maps
  to the list of its blobs, each encoded and then decoded with the stored video shape, so
  to as many blobs. The parameters have the same name-to-value pairs provided that
  \<open>SegmenterParameters\<close> built from the pairs of a parameter object has these pairs
  again; the blobs agree within \<open>eps\<close> on centre and radius provided that
  \<open>Blob.decode\<close> after \<open>Blob.encode\<close> does so on the blobs of the table.
\<close>

theorem decode_encode:
  assumes "distinct (map fst (frames_with_blobs (x :: ('f, 'b) segmenter)))"
  shows "\<exists>y :: ('f, 'b) segmenter. decode api c (encode api x) = Inr y \<and>
     video_length y = video_length x \<and> video_shape y = video_shape x \<and>
     map fst (frames_with_blobs y) = map fst (frames_with_blobs x) \<and>
     (\<forall>frame blobs. map_of (frames_with_blobs x) frame = Some blobs \<longrightarrow>
        map_of (frames_with_blobs y) frame =
          Some (map (\<lambda>b. blob_decode api (blob_encode api b) (video_shape x)) blobs)) \<and>
     ((\<forall>ps. params_items api (SegmenterParameters api (params_items api ps)) = params_items api ps) \<longrightarrow>
        params_items api (params y) = params_items api (params x)) \<and>
     ((\<forall>(frame, blobs) \<in> set (frames_with_blobs x). \<forall>b \<in> set blobs.
          blob_close bl eps b (blob_decode api (blob_encode api b) (video_shape x))) \<longrightarrow>
      (\<forall>frame blobs. map_of (frames_with_blobs x) frame = Some blobs \<longrightarrow>
         (\<exists>blobs'. map_of (frames_with_blobs y) frame = Some blobs' \<and>
                    list_all2 (blob_close bl eps) blobs blobs')))"
proof -
  let ?rt = "\<lambda>b. blob_decode api (blob_encode api b) (video_shape x)"
  define y :: "('f, 'b) segmenter" where
    "y = \<lparr>cls = c, video = Missing,
          frames_with_blobs = map (\<lambda>(frame, blobs). (frame, map ?rt blobs)) (frames_with_blobs x),
          params = SegmenterParameters api (params_items api (params x)),
          video_length = video_length x, video_shape = video_shape x\<rparr>"
  have dec: "decode api c (encode api x) = Inr y"
    unfolding y_def using assms by (rule decode_encode_eq)
  have len: "video_length y = video_length x" and shp: "video_shape y = video_shape x"
    by (simp_all add: y_def)
  have keys: "map fst (frames_with_blobs y) = map fst (frames_with_blobs x)"
    by (simp add: y_def comp_def split_def)
  have entries: "\<forall>frame blobs. map_of (frames_with_blobs x) frame = Some blobs \<longrightarrow>
      map_of (frames_with_blobs y) frame = Some (map ?rt blobs)"
    by (simp add: y_def map_of_map_values)
  have pars: "(\<forall>ps. params_items api (SegmenterParameters api (params_items api ps)) =
                  params_items api ps) \<longrightarrow>
      params_items api (params y) = params_items api (params x)"
    by (simp add: y_def)
  have close: "(\<forall>(frame, blobs) \<in> set (frames_with_blobs x). \<forall>b \<in> set blobs.
          blob_close bl eps b (?rt b)) \<longrightarrow>
      (\<forall>frame blobs. map_of (frames_with_blobs x) frame = Some blobs \<longrightarrow>
         (\<exists>blobs'. map_of (frames_with_blobs y) frame = Some blobs' \<and>
                    list_all2 (blob_close bl eps) blobs blobs'))"
  proof (intro impI allI)
    fix frame blobs
    assume all: "\<forall>(frame, blobs) \<in> set (frames_with_blobs x). \<forall>b \<in> set blobs.
          blob_close bl eps b (?rt b)"
      and stored: "map_of (frames_with_blobs x) frame = Some blobs"
    from stored have "(frame, blobs) \<in> set (frames_with_blobs x)"
      by (rule map_of_SomeD)
    with all have "\<forall>b \<in> set blobs. blob_close bl eps b (?rt b)" by auto
    then have "list_all2 (blob_close bl eps) blobs (map ?rt blobs)"
      by (simp add: list_all2_map2 list.rel_refl_strong)
    moreover from stored entries have "map_of (frames_with_blobs y) frame = Some (map ?rt blobs)"
      by blast
    ultimately show "\<exists>blobs'. map_of (frames_with_blobs y) frame = Some blobs' \<and>
        list_all2 (blob_close bl eps) blobs blobs'"
      by blast
  qed
  show ?thesis
    by (rule exI [of _ y]) (intro conjI dec len shp keys entries pars close)
qed


theorem decode_encode_witness:
  "distinct (map fst (frames_with_blobs demo_segmented)) \<and>
   (\<forall>ps. params_items demo_api (SegmenterParameters demo_api (params_items demo_api ps)) =
          params_items demo_api ps) \<and>
   blob_close demo_blob_api 0 demo_ant_blob
     (blob_decode demo_api (blob_encode demo_api demo_ant_blob) (video_shape demo_segmented)) \<and>
   (\<exists>y :: (real image, demo_blob) segmenter.
      decode demo_api LogWSegmenter (encode demo_api demo_segmented) = Inr y \<and>
      video_length y = 3 \<and> video_shape y = (2, 3) \<and>
      map fst (frames_with_blobs y) = [1, 2] \<and>
      map_of (frames_with_blobs y) 1 = Some [demo_ant_blob] \<and>
      map_of (frames_with_blobs y) 2 = Some [demo_ant_blob] \<and>
      params_items demo_api (params y) = demo_params)"
proof -
  have d: "distinct (map fst (frames_with_blobs demo_segmented))"
    by (simp add: demo_segmented_def demo_three_def)
  have p: "\<forall>ps. params_items demo_api (SegmenterParameters demo_api (params_items demo_api ps)) =
          params_items demo_api ps"
    by (simp add: demo_api_def)
  have b: "blob_close demo_blob_api 0 demo_ant_blob
     (blob_decode demo_api (blob_encode demo_api demo_ant_blob) (video_shape demo_segmented))"
    by (simp add: blob_close_def demo_blob_api_def)
  from decode_encode [OF d, of demo_api LogWSegmenter demo_blob_api 0]
  obtain y :: "(real image, demo_blob) segmenter"
    where dec: "decode demo_api LogWSegmenter (encode demo_api demo_segmented) = Inr y"
      and len: "video_length y = video_length demo_segmented"
      and shp: "video_shape y = video_shape demo_segmented"
      and keys: "map fst (frames_with_blobs y) = map fst (frames_with_blobs demo_segmented)"
      and entries: "\<forall>frame blobs. map_of (frames_with_blobs demo_segmented) frame = Some blobs \<longrightarrow>
        map_of (frames_with_blobs y) frame =
          Some (map (\<lambda>b. blob_decode demo_api (blob_encode demo_api b)
                            (video_shape demo_segmented)) blobs)"
      and pars: "params_items demo_api (params y) = params_items demo_api (params demo_segmented)"
    using p by blast
  have s1: "map_of (frames_with_blobs demo_segmented) 1 = Some [demo_ant_blob]"
    and s2: "map_of (frames_with_blobs demo_segmented) 2 = Some [demo_ant_blob]"
    by (simp_all add: demo_segmented_def)
  have rt: "map (\<lambda>b. blob_decode demo_api (blob_encode demo_api b) (video_shape demo_segmented))
              [demo_ant_blob] = [demo_ant_blob]"
    by (simp add: demo_api_def demo_ant_blob_def demo_segmented_def demo_three_def)
  from entries s1 have "map_of (frames_with_blobs y) 1 =
      Some (map (\<lambda>b. blob_decode demo_api (blob_encode demo_api b) (video_shape demo_segmented))
              [demo_ant_blob])"
    by blast
  then have e1: "map_of (frames_with_blobs y) 1 = Some [demo_ant_blob]"
    by (simp only: rt)
  from entries s2 have "map_of (frames_with_blobs y) 2 =
      Some (map (\<lambda>b. blob_decode demo_api (blob_encode demo_api b) (video_shape demo_segmented))
              [demo_ant_blob])"
    by blast
  then have e2: "map_of (frames_with_blobs y) 2 = Some [demo_ant_blob]"
    by (simp only: rt)
  have v1: "video_length y = 3" and v2: "video_shape y = (2, 3)"
    and v3: "map fst (frames_with_blobs y) = [1, 2]"
    and v4: "params_items demo_api (params y) = demo_params"
    using len shp keys pars
    by (simp_all add: demo_segmented_def demo_three_def demo_api_def)
  have ex: "\<exists>y :: (real image, demo_blob) segmenter.
      decode demo_api LogWSegmenter (encode demo_api demo_segmented) = Inr y \<and>
      video_length y = 3 \<and> video_shape y = (2, 3) \<and>
      map fst (frames_with_blobs y) = [1, 2] \<and>
      map_of (frames_with_blobs y) 1 = Some [demo_ant_blob] \<and>
      map_of (frames_with_blobs y) 2 = Some [demo_ant_blob] \<and>
      params_items demo_api (params y) = demo_params"
    by (rule exI [of _ y]) (intro conjI dec v1 v2 v3 e1 e2 v4)
  show ?thesis by (intro conjI d p b ex)
qed


end
